theory Spec2Isabelle
  imports Complex_Main "HOL-Library.Char_ord" "HOL-Library.Multiset"
begin

section \<open>JavaScript strings\<close>

text \<open>
  A JavaScript string is modelled as a \<^typ>\<open>string\<close> whose characters are the code units
  U+0000 to U+00FF (Latin-1). Characters of the source's patterns that lie outside this
  range (the dashes U+2012 to U+2014 and U+2212) cannot occur in such a string and are
  left out of the character classes below. Numbers that the source reads from the page
  geometry are modelled as rationals: the model has no NaN, no infinities and no rounding.
\<close>

type_synonym ranges = "(char \<times> char) list"

fun in_ranges :: "char \<Rightarrow> ranges \<Rightarrow> bool" where
  "in_ranges c [] = False"
| "in_ranges c ((lo, hi) # rs) = (if lo \<le> c \<and> c \<le> hi then True else in_ranges c rs)"

definition is_space :: "char \<Rightarrow> bool" where
  \<comment> \<open>the class \<open>\s\<close>, which is also what \<open>trim()\<close> strips\<close>
  "is_space c = in_ranges c [(CHR 0x09, CHR 0x0D), (CHR '' '', CHR '' ''), (CHR 0xA0, CHR 0xA0)]"

definition is_digit :: "char \<Rightarrow> bool" where
  "is_digit c = in_ranges c [(CHR ''0'', CHR ''9'')]"

definition to_upper :: "char \<Rightarrow> char" where
  \<comment> \<open>the upper-case letter lies 32 code units below the lower-case one: bit 5 is cleared\<close>
  "to_upper c = (if in_ranges c [(CHR ''a'', CHR ''z''), (CHR 0xE0, CHR 0xF6), (CHR 0xF8, CHR 0xFE)]
                 then (case c of Char b0 b1 b2 b3 b4 b5 b6 b7 \<Rightarrow> Char b0 b1 b2 b3 b4 False b6 b7)
                 else c)"

definition to_lower :: "char \<Rightarrow> char" where
  "to_lower c = (if in_ranges c [(CHR ''A'', CHR ''Z''), (CHR 0xC0, CHR 0xD6), (CHR 0xD8, CHR 0xDE)]
                 then (case c of Char b0 b1 b2 b3 b4 b5 b6 b7 \<Rightarrow> Char b0 b1 b2 b3 b4 True b6 b7)
                 else c)"

definition toLowerCase :: "string \<Rightarrow> string" where
  "toLowerCase s = map to_lower s"

definition trim :: "string \<Rightarrow> string" where
  "trim s = rev (dropWhile is_space (rev (dropWhile is_space s)))"

definition slice :: "string \<Rightarrow> nat \<Rightarrow> nat \<Rightarrow> string" where
  \<comment> \<open>\<open>s.slice(a, b)\<close> for \<open>0 \<le> a\<close>\<close>
  "slice s a b = take (b - a) (drop a s)"

definition digit_val :: "char \<Rightarrow> nat" where
  \<comment> \<open>the value of a decimal digit: its index among the digits\<close>
  "digit_val c = length (takeWhile (\<lambda>d. d \<noteq> c) ''0123456789'')"

definition parseInt :: "string \<Rightarrow> int option" where
  \<comment> \<open>\<open>parseInt(s, 10)\<close>; \<open>None\<close> is NaN\<close>
  "parseInt s =
     (let t = dropWhile is_space s;
          neg = (case t of [] \<Rightarrow> False | a # _ \<Rightarrow> a = CHR ''-'');
          u = (case t of [] \<Rightarrow> [] | a # as \<Rightarrow> if a = CHR ''-'' \<or> a = CHR ''+'' then as else t);
          ds = takeWhile is_digit u
      in if ds = [] then None
         else let n = int (foldl (\<lambda>n c. 10 * n + digit_val c) 0 ds)
              in Some (if neg then - n else n))"

definition digit_char :: "nat \<Rightarrow> char" where
  \<comment> \<open>the decimal digit of a number below 10\<close>
  "digit_char n = ''0123456789'' ! n"

function show_nat :: "nat \<Rightarrow> string" where
  "show_nat n = (if n < 10 then [digit_char n] else show_nat (n div 10) @ [digit_char (n mod 10)])"
  by pat_completeness auto
termination
  by (relation "measure id") auto

definition String :: "int \<Rightarrow> string" where
  \<comment> \<open>\<open>String(n)\<close> for an integer \<open>n\<close>\<close>
  "String n = (if n < 0 then CHR ''-'' # show_nat (nat (- n)) else show_nat (nat n))"

section \<open>Regular expressions\<close>

text \<open>
  The patterns of the source are kept as data and run by a backtracking matcher with the
  priorities of the ECMAScript semantics: alternatives left to right, greedy quantifiers
  that give back one iteration at a time, an iteration of a quantifier past its minimum
  fails when it consumes nothing, and the captures of a quantified group are reset at the
  start of each iteration. The continuation of the ECMAScript matcher is the list of
  frames still to be matched.
\<close>

type_synonym caps = "(nat \<times> string) list"

datatype rx =
    Chr char
  | Cls ranges
  | NCls ranges
  | Dot
  | Bol
  | Eol
  | WordB
  | Eps
  | Cat rx rx
  | Alt rx rx
  | Rep nat "nat option" rx
  | Lazy rx
  | Grp nat rx
  | LookA rx
  | NLookA rx

datatype frame =
    Rx rx
  | GrpEnd nat string
  | RepChk nat nat "nat option" rx
  | LazyChk nat rx

definition chr_match :: "bool \<Rightarrow> char \<Rightarrow> char \<Rightarrow> bool" where
  "chr_match ci a c = (if c = a then True else if ci then to_upper c = to_upper a else False)"

definition cls_match :: "bool \<Rightarrow> ranges \<Rightarrow> char \<Rightarrow> bool" where
  "cls_match ci rs c =
     (if in_ranges c rs then True
      else if ci then (if in_ranges (to_upper c) rs then True else in_ranges (to_lower c) rs)
      else False)"

definition is_word :: "char \<Rightarrow> bool" where
  "is_word c = in_ranges c
     [(CHR ''a'', CHR ''z''), (CHR ''A'', CHR ''Z''), (CHR ''0'', CHR ''9''), (CHR ''_'', CHR ''_'')]"

fun word_opt :: "char option \<Rightarrow> bool" where
  "word_opt None = False"
| "word_opt (Some c) = is_word c"

fun head_opt :: "string \<Rightarrow> char option" where
  "head_opt [] = None"
| "head_opt (x # xs) = Some x"

fun groups :: "rx \<Rightarrow> nat list" where
  "groups (Cat a b) = groups a @ groups b"
| "groups (Alt a b) = groups a @ groups b"
| "groups (Rep mn mx r) = groups r"
| "groups (Lazy r) = groups r"
| "groups (Grp n r) = n # groups r"
| "groups (LookA r) = groups r"
| "groups (NLookA r) = groups r"
| "groups r = []"

definition clear :: "nat list \<Rightarrow> caps \<Rightarrow> caps" where
  "clear ns c = filter (\<lambda>(n, v). n \<notin> set ns) c"

fun dec :: "nat option \<Rightarrow> nat option" where
  "dec None = None"
| "dec (Some n) = Some (n - 1)"

fun wt :: "rx \<Rightarrow> nat" where
  "wt (Cat a b) = Suc (wt a + wt b)"
| "wt (Alt a b) = Suc (wt a + wt b)"
| "wt (Rep mn mx r) = Suc mn * (wt r + 2)"
| "wt (Lazy r) = wt r + 2"
| "wt (Grp n r) = wt r + 2"
| "wt (LookA r) = Suc (wt r)"
| "wt (NLookA r) = Suc (wt r)"
| "wt r = 1"

fun fwt :: "nat \<Rightarrow> frame \<Rightarrow> nat" where
  "fwt n (Rx r) = wt r"
| "fwt n (GrpEnd g s0) = 1"
| "fwt n (RepChk j mn mx r) =
     (if mn = 0 then (if j \<le> n then 0 else wt r + 3) else mn * (wt r + 2) + 1)"
| "fwt n (LazyChk j r) = (if j \<le> n then 0 else wt r + 3)"

text \<open>
  \<open>rxm ci k p s c\<close> matches the frames \<open>k\<close> against the rest \<open>s\<close> of the input, where
  \<open>p\<close> is the character before \<open>s\<close> (\<open>None\<close> at the start of the input), \<open>c\<close> holds the
  captures so far and \<open>ci\<close> is the flag \<open>i\<close>. The result is the rest after the match and
  the captures. \<open>Rep mn mx r\<close> is the greedy quantifier \<open>r{mn,mx}\<close>, \<open>Lazy r\<close> is \<open>r*?\<close>.
\<close>

function (sequential) rxm ::
  "bool \<Rightarrow> frame list \<Rightarrow> char option \<Rightarrow> string \<Rightarrow> caps \<Rightarrow> (string \<times> caps) option" where
  "rxm ci [] p s c = Some (s, c)"
| "rxm ci (Rx (Chr a) # k) p [] c = None"
| "rxm ci (Rx (Chr a) # k) p (x # xs) c =
     (if chr_match ci a x then rxm ci k (Some x) xs c else None)"
| "rxm ci (Rx (Cls rs) # k) p [] c = None"
| "rxm ci (Rx (Cls rs) # k) p (x # xs) c =
     (if cls_match ci rs x then rxm ci k (Some x) xs c else None)"
| "rxm ci (Rx (NCls rs) # k) p [] c = None"
| "rxm ci (Rx (NCls rs) # k) p (x # xs) c =
     (if cls_match ci rs x then None else rxm ci k (Some x) xs c)"
| "rxm ci (Rx Dot # k) p [] c = None"
| "rxm ci (Rx Dot # k) p (x # xs) c =
     (if x = CHR 0x0A \<or> x = CHR 0x0D then None else rxm ci k (Some x) xs c)"
| "rxm ci (Rx Bol # k) p s c = (if p = None then rxm ci k p s c else None)"
| "rxm ci (Rx Eol # k) p s c = (if s = [] then rxm ci k p s c else None)"
| "rxm ci (Rx WordB # k) p s c =
     (if word_opt p \<noteq> word_opt (head_opt s) then rxm ci k p s c else None)"
| "rxm ci (Rx Eps # k) p s c = rxm ci k p s c"
| "rxm ci (Rx (Cat a b) # k) p s c = rxm ci (Rx a # Rx b # k) p s c"
| "rxm ci (Rx (Alt a b) # k) p s c =
     (case rxm ci (Rx a # k) p s c of Some z \<Rightarrow> Some z | None \<Rightarrow> rxm ci (Rx b # k) p s c)"
| "rxm ci (Rx (Grp n r) # k) p s c = rxm ci (Rx r # GrpEnd n s # k) p s c"
| "rxm ci (GrpEnd n s0 # k) p s c =
     rxm ci k p s ((n, take (length s0 - length s) s0) # clear [n] c)"
| "rxm ci (Rx (LookA r) # k) p s c =
     (case rxm ci [Rx r] p s c of None \<Rightarrow> None | Some (s', c') \<Rightarrow> rxm ci k p s c')"
| "rxm ci (Rx (NLookA r) # k) p s c =
     (case rxm ci [Rx r] p s c of None \<Rightarrow> rxm ci k p s c | Some z \<Rightarrow> None)"
| "rxm ci (Rx (Rep mn mx r) # k) p s c =
     (if mx = Some 0 then rxm ci k p s c
      else if mn \<noteq> 0 then rxm ci (Rx r # RepChk (length s) mn mx r # k) p s (clear (groups r) c)
      else (case rxm ci (Rx r # RepChk (length s) mn mx r # k) p s (clear (groups r) c) of
              Some z \<Rightarrow> Some z
            | None \<Rightarrow> rxm ci k p s c))"
| "rxm ci (RepChk j mn mx r # k) p s c =
     (if mn = 0 \<and> j \<le> length s then None
      else rxm ci (Rx (Rep (mn - 1) (dec mx) r) # k) p s c)"
| "rxm ci (Rx (Lazy r) # k) p s c =
     (case rxm ci k p s c of
        Some z \<Rightarrow> Some z
      | None \<Rightarrow> rxm ci (Rx r # LazyChk (length s) r # k) p s (clear (groups r) c))"
| "rxm ci (LazyChk j r # k) p s c =
     (if j \<le> length s then None else rxm ci (Rx (Lazy r) # k) p s c)"
  by pat_completeness auto
termination
  apply (relation "inv_image (less_than <*lex*> less_than)
        (\<lambda>(ci, k, p, s, c). (length s, sum_list (map (fwt (length s)) k)))")
  apply (auto simp: less_Suc_eq_le)
  subgoal for j mn r s by (cases mn) auto
  subgoal for j mn r s by (cases mn) auto
  subgoal for j mn r s by (cases mn) auto
  done

fun lit :: "string \<Rightarrow> rx" where
  "lit [] = Eps"
| "lit [a] = Chr a"
| "lit (a # as) = Cat (Chr a) (lit as)"

fun cats :: "rx list \<Rightarrow> rx" where
  "cats [] = Eps"
| "cats [r] = r"
| "cats (r # rs) = Cat r (cats rs)"

fun alts :: "rx list \<Rightarrow> rx" where
  "alts [] = Eps"
| "alts [r] = r"
| "alts (r # rs) = Alt r (alts rs)"

abbreviation Star :: "rx \<Rightarrow> rx" where "Star r \<equiv> Rep 0 None r"
abbreviation Plus :: "rx \<Rightarrow> rx" where "Plus r \<equiv> Rep 1 None r"
abbreviation Opt :: "rx \<Rightarrow> rx" where "Opt r \<equiv> Rep 0 (Some 1) r"
abbreviation Ch :: "char \<Rightarrow> char \<times> char" where "Ch a \<equiv> (a, a)"

definition ws :: rx where
  \<comment> \<open>\<open>\s\<close>\<close>
  "ws = Cls [(CHR 0x09, CHR 0x0D), Ch CHR '' '', Ch (CHR 0xA0)]"

definition dig :: rx where
  \<comment> \<open>\<open>\d\<close>\<close>
  "dig = Cls [(CHR ''0'', CHR ''9'')]"

definition letter :: rx where
  \<comment> \<open>\<open>[a-zA-Z]\<close>\<close>
  "letter = Cls [(CHR ''a'', CHR ''z''), (CHR ''A'', CHR ''Z'')]"

text \<open>
  \<open>rx_search ci r i p s\<close> is the leftmost match of \<open>r\<close> in \<open>s\<close>, which starts at index
  \<open>i\<close> of the input: the index of the match, the matched text, the rest of the input and
  the captures.
\<close>

fun rx_search ::
  "bool \<Rightarrow> rx \<Rightarrow> nat \<Rightarrow> char option \<Rightarrow> string \<Rightarrow> (nat \<times> string \<times> string \<times> caps) option" where
  "rx_search ci r i p [] =
     (case rxm ci [Rx r] p [] [] of Some (s', c) \<Rightarrow> Some (i, [], s', c) | None \<Rightarrow> None)"
| "rx_search ci r i p (x # xs) =
     (case rxm ci [Rx r] p (x # xs) [] of
        Some (s', c) \<Rightarrow> Some (i, take (length (x # xs) - length s') (x # xs), s', c)
      | None \<Rightarrow> rx_search ci r (Suc i) (Some x) xs)"

definition rx_match :: "bool \<Rightarrow> rx \<Rightarrow> string \<Rightarrow> (nat \<times> string \<times> string \<times> caps) option" where
  \<comment> \<open>\<open>s.match(re)\<close> and \<open>re.exec(s)\<close> for a pattern without the flag \<open>g\<close>\<close>
  "rx_match ci r s = rx_search ci r 0 None s"

definition rx_test :: "bool \<Rightarrow> rx \<Rightarrow> string \<Rightarrow> bool" where
  "rx_test ci r s = (rx_match ci r s \<noteq> None)"

definition cap :: "caps \<Rightarrow> nat \<Rightarrow> string option" where
  "cap c n = map_of c n"

definition capd :: "caps \<Rightarrow> nat \<Rightarrow> string" where
  \<comment> \<open>a group that took part in the match\<close>
  "capd c n = (case map_of c n of None \<Rightarrow> [] | Some v \<Rightarrow> v)"

fun last_opt :: "char option \<Rightarrow> string \<Rightarrow> char option" where
  "last_opt p [] = p"
| "last_opt p (x # xs) = last_opt (Some x) xs"

text \<open>
  The loop \<open>while ((m = re.exec(s)) !== null)\<close> of a pattern with the flag \<open>g\<close>: the
  matches in order, each with its index, its text and its captures. An empty match at
  \<open>lastIndex\<close> would keep the source in its loop forever; the list ends there.
\<close>

function rx_all :: "bool \<Rightarrow> rx \<Rightarrow> nat \<Rightarrow> char option \<Rightarrow> string \<Rightarrow> (nat \<times> string \<times> caps) list" where
  "rx_all ci r i p s =
     (case rx_search ci r i p s of
        None \<Rightarrow> []
      | Some (j, m, s', c) \<Rightarrow>
          if length s' < length s
          then (j, m, c) # rx_all ci r (j + length m) (last_opt p (take (length s - length s') s)) s'
          else [(j, m, c)])"
  by pat_completeness auto
termination
  by (relation "measure (\<lambda>(ci, r, i, p, s). length s)") auto

text \<open>
  \<open>s.replace(re, f)\<close> for a pattern with the flag \<open>g\<close>, where the replacement is
  computed from the captures; after an empty match the next character is copied.
\<close>

function rx_replace_fn :: "bool \<Rightarrow> rx \<Rightarrow> (caps \<Rightarrow> string) \<Rightarrow> char option \<Rightarrow> string \<Rightarrow> string" where
  "rx_replace_fn ci r f p s =
     (case rx_search ci r 0 p s of
        None \<Rightarrow> s
      | Some (j, m, s', c) \<Rightarrow>
          if length s' < length s
          then take j s @ f c @ rx_replace_fn ci r f (last_opt p (take (length s - length s') s)) s'
          else (case s of
                  [] \<Rightarrow> f c
                | x # xs \<Rightarrow> f c @ x # rx_replace_fn ci r f (Some x) xs))"
  by pat_completeness auto
termination
  by (relation "measure (\<lambda>(ci, r, f, p, s). length s)") auto

definition rx_replace :: "bool \<Rightarrow> rx \<Rightarrow> string \<Rightarrow> char option \<Rightarrow> string \<Rightarrow> string" where
  \<comment> \<open>a constant replacement\<close>
  "rx_replace ci r rep p s = rx_replace_fn ci r (\<lambda>c. rep) p s"

definition collapse_ws :: "string \<Rightarrow> string" where
  \<comment> \<open>\<open>s.replace(/\s+/g, ' ')\<close>\<close>
  "collapse_ws s = rx_replace False (Plus ws) '' '' None s"

definition collapse_blanks :: "string \<Rightarrow> string" where
  \<comment> \<open>\<open>s.replace(/[\t ]+/g, ' ')\<close>\<close>
  "collapse_blanks s = rx_replace False (Plus (Cls [Ch (CHR 0x09), Ch CHR '' ''])) '' '' None s"

section \<open>Arrays\<close>

text \<open>
  \<open>Array.prototype.sort\<close> with a comparator is stable; it is modelled as an insertion
  sort that puts an element before the first later element it does not exceed. The
  comparators of the source are differences of numbers, chained with \<open>||\<close>.
\<close>

fun insert_by :: "('a \<Rightarrow> 'a \<Rightarrow> rat) \<Rightarrow> 'a \<Rightarrow> 'a list \<Rightarrow> 'a list" where
  "insert_by cmp a [] = [a]"
| "insert_by cmp a (b # bs) = (if cmp a b \<le> 0 then a # b # bs else b # insert_by cmp a bs)"

definition js_sort :: "('a \<Rightarrow> 'a \<Rightarrow> rat) \<Rightarrow> 'a list \<Rightarrow> 'a list" where
  "js_sort cmp xs = foldr (insert_by cmp) xs []"

definition or_else :: "rat \<Rightarrow> rat \<Rightarrow> rat" where
  \<comment> \<open>\<open>u || v\<close> on numbers\<close>
  "or_else u v = (if u \<noteq> 0 then u else v)"

section \<open>Line reconstruction\<close>

record PdfjsTextItem =
  it_str :: string
  it_transform :: "(rat \<times> rat) option"
  it_hasEOL :: bool

text \<open>
  Of the array \<open>transform\<close> of an item only the entries 4 and 5 are read; the model keeps this
  pair, and \<open>None\<close> for an item without the array.
\<close>

record Span =
  sp_text :: string
  sp_x :: rat
  sp_y :: rat

record RawLine =
  rl_y :: rat
  rl_parts :: "Span list"

record Line =
  ln_page :: int
  ln_text :: string
  ln_x :: rat
  ln_y :: rat

record DetectorConfig =
  yTolerancePx :: rat
  gapXThresholdPx :: rat
  leftMarginPercentile :: rat
  headerFooterPercent :: rat
  scoreThreshold :: rat
  contextWindow :: nat
  debug :: bool

definition DEFAULT_CONFIG :: DetectorConfig where
  "DEFAULT_CONFIG = \<lparr> yTolerancePx = 3, gapXThresholdPx = 4, leftMarginPercentile = 25,
     headerFooterPercent = 7, scoreThreshold = 2, contextWindow = 120, debug = False \<rparr>"

definition spansOf :: "PdfjsTextItem list \<Rightarrow> Span list" where
  "spansOf items =
     map (\<lambda>it. \<lparr> sp_text = it_str it,
                  sp_x = (case it_transform it of None \<Rightarrow> 0 | Some (a, b) \<Rightarrow> a),
                  sp_y = (case it_transform it of None \<Rightarrow> 0 | Some (a, b) \<Rightarrow> b) \<rparr>)
         (filter (\<lambda>it. it_str it \<noteq> []) items)"

definition sortSpans :: "Span list \<Rightarrow> Span list" where
  \<comment> \<open>\<open>spans.sort((a, b) => (b.y - a.y) || (a.x - b.x))\<close>\<close>
  "sortSpans spans = js_sort (\<lambda>a b. or_else (sp_y b - sp_y a) (sp_x a - sp_x b)) spans"

fun addSpan :: "rat \<Rightarrow> Span \<Rightarrow> RawLine list \<Rightarrow> RawLine list" where
  \<comment> \<open>the first line within the tolerance takes the span, else a new line is pushed\<close>
  "addSpan yTol sp [] = [\<lparr> rl_y = sp_y sp, rl_parts = [sp] \<rparr>]"
| "addSpan yTol sp (l # ls) =
     (if \<bar>rl_y l - sp_y sp\<bar> \<le> yTol then l \<lparr> rl_parts := rl_parts l @ [sp] \<rparr> # ls
      else l # addSpan yTol sp ls)"

definition rawLines :: "rat \<Rightarrow> Span list \<Rightarrow> RawLine list" where
  "rawLines yTol spans = foldl (\<lambda>raw sp. addSpan yTol sp raw) [] spans"

fun joinParts :: "rat \<Rightarrow> string \<Rightarrow> rat option \<Rightarrow> Span list \<Rightarrow> string" where
  \<comment> \<open>\<open>prevX\<close> is \<open>None\<close> for negative infinity\<close>
  "joinParts gapX txt prevX [] = txt"
| "joinParts gapX txt prevX (p # ps) =
     (let wide = (case prevX of None \<Rightarrow> True | Some px \<Rightarrow> sp_x p - px > gapX);
          txt1 = (if txt \<noteq> [] \<and> wide then txt @ '' '' else txt)
      in joinParts gapX (txt1 @ sp_text p) (Some (sp_x p)) ps)"

definition lineText :: "rat \<Rightarrow> RawLine \<Rightarrow> string" where
  "lineText gapX l =
     trim (collapse_ws (joinParts gapX [] None (js_sort (\<lambda>a b. sp_x a - sp_x b) (rl_parts l))))"

definition lineX :: "RawLine \<Rightarrow> rat" where
  \<comment> \<open>\<open>l.parts[0]?.x ?? 0\<close> after the parts were sorted\<close>
  "lineX l = (case js_sort (\<lambda>a b. sp_x a - sp_x b) (rl_parts l) of [] \<Rightarrow> 0 | p # ps \<Rightarrow> sp_x p)"

definition buildLinesFromItems :: "PdfjsTextItem list \<Rightarrow> int \<Rightarrow> DetectorConfig \<Rightarrow> Line list" where
  "buildLinesFromItems items page cfg =
     (let raw = rawLines (yTolerancePx cfg) (sortSpans (spansOf items))
      in map (\<lambda>l. \<lparr> ln_page = page, ln_text = lineText (gapXThresholdPx cfg) l,
                      ln_x = lineX l, ln_y = rl_y l \<rparr>)
           (filter (\<lambda>l. lineText (gapXThresholdPx cfg) l \<noteq> []) raw))"

record TextLine =
  tl_text :: string
  tl_page :: int

definition buildLinesFromItems_parsePdf :: "PdfjsTextItem list \<Rightarrow> int \<Rightarrow> TextLine list" where
  \<comment> \<open>the copy in the file of \<open>parsePdf\<close>: tolerance 3, gap 3, no coordinates in the result\<close>
  "buildLinesFromItems_parsePdf items page =
     (let raw = rawLines 3 (sortSpans (spansOf items))
      in map (\<lambda>l. \<lparr> tl_text = lineText 3 l, tl_page = page \<rparr>)
           (filter (\<lambda>l. lineText 3 l \<noteq> []) raw))"

section \<open>Text normalisation\<close>

definition strip_diacritic :: "char \<Rightarrow> char" where
  \<comment> \<open>canonical decomposition of one Latin-1 character, without its combining marks\<close>
  "strip_diacritic c =
     (if in_ranges c [(CHR 0xC0, CHR 0xC5)] then CHR ''A''
      else if c = CHR 0xC7 then CHR ''C''
      else if in_ranges c [(CHR 0xC8, CHR 0xCB)] then CHR ''E''
      else if in_ranges c [(CHR 0xCC, CHR 0xCF)] then CHR ''I''
      else if c = CHR 0xD1 then CHR ''N''
      else if in_ranges c [(CHR 0xD2, CHR 0xD6)] then CHR ''O''
      else if in_ranges c [(CHR 0xD9, CHR 0xDC)] then CHR ''U''
      else if c = CHR 0xDD then CHR ''Y''
      else if in_ranges c [(CHR 0xE0, CHR 0xE5)] then CHR ''a''
      else if c = CHR 0xE7 then CHR ''c''
      else if in_ranges c [(CHR 0xE8, CHR 0xEB)] then CHR ''e''
      else if in_ranges c [(CHR 0xEC, CHR 0xEF)] then CHR ''i''
      else if c = CHR 0xF1 then CHR ''n''
      else if in_ranges c [(CHR 0xF2, CHR 0xF6)] then CHR ''o''
      else if in_ranges c [(CHR 0xF9, CHR 0xFC)] then CHR ''u''
      else if c = CHR 0xFD \<or> c = CHR 0xFF then CHR ''y''
      else c)"

definition normalizeDiacritics :: "string \<Rightarrow> string" where
  \<comment> \<open>\<open>input.normalize('NFD').replace(/\p{M}+/gu, '')\<close>\<close>
  "normalizeDiacritics input = map strip_diacritic input"

definition normalizeDashes :: "string \<Rightarrow> string" where
  \<comment> \<open>replaces U+2012, U+2013, U+2014 and U+2212, none of which is a Latin-1 character\<close>
  "normalizeDashes input = input"

definition normalizeTextKeepLines :: "string \<Rightarrow> string" where
  "normalizeTextKeepLines input =
     (let s = normalizeDashes (normalizeDiacritics input)
      in rx_replace False (Cat (Plus ws) (Chr (CHR 0x0A))) [CHR 0x0A] None (collapse_blanks s))"

section \<open>The layout-aware question detector\<close>

datatype TokenKind = KMain | KSub

record TokenMeta =
  tk_token :: string
  tk_kind :: TokenKind
  tk_parent :: "string option"
  tk_page :: int
  tk_x :: rat
  tk_y :: rat
  tk_confidence :: rat
  tk_positions :: "(int \<times> rat \<times> rat) list"

record PageInput =
  pg_page :: int
  pg_items :: "PdfjsTextItem list"
  pg_height :: "rat option"

definition percentile :: "rat list \<Rightarrow> rat \<Rightarrow> rat" where
  "percentile vals p =
     (if vals = [] then 0
      else let arr = js_sort (\<lambda>a b. a - b) vals;
               idx = min (int (length arr) - 1) (max 0 \<lfloor>(p / 100) * of_nat (length arr)\<rfloor>)
           in arr ! nat idx)"

datatype Band = Header | Footer

definition isHeaderFooter :: "rat \<Rightarrow> rat \<Rightarrow> rat \<Rightarrow> rat \<Rightarrow> Band option" where
  "isHeaderFooter y pageMinY pageMaxY percent =
     (let span = max 1 (pageMaxY - pageMinY);
          headerY = pageMaxY - (percent / 100) * span;
          footerY = pageMinY + (percent / 100) * span
      in if y \<ge> headerY then Some Header
         else if y \<le> footerY then Some Footer
         else None)"

abbreviation Times :: "nat \<Rightarrow> rx \<Rightarrow> rx" where "Times n r \<equiv> Rep n (Some n) r"

definition headingWord :: rx where
  \<comment> \<open>\<open>(?:uppgift|problem|fr(?:a|\<aa>)ga|question|q\b|section|sektion)\<close>\<close>
  "headingWord = alts [lit ''uppgift'', lit ''problem'',
     cats [lit ''fr'', Alt (Chr CHR ''a'') (Chr (CHR 0xE5)), lit ''ga''],
     lit ''question'', Cat (Chr CHR ''q'') WordB, lit ''section'', lit ''sektion'']"

definition headRe :: rx where
  \<comment> \<open>\<open>^\s*headingWord\<close>, flags iu\<close>
  "headRe = cats [Bol, Star ws, headingWord]"

definition pointsAhead :: "string \<Rightarrow> rx" where
  \<comment> \<open>\<open>(?!\s*p(?:oang|w)?\b)\<close>\<close>
  "pointsAhead w = NLookA (cats [Star ws, Chr CHR ''p'', Opt (Alt (lit ''oang'') (lit w)), WordB])"

definition reMainHead :: rx where
  \<comment> \<open>\<open>^\s*(?:headingWord\s*)?([1-9]\d?)(?!\s*p(?:oang|oints)?\b)\s*([\.:\)])?\<close>, flags iu\<close>
  "reMainHead = cats [Bol, Star ws, Opt (Cat headingWord (Star ws)),
     Grp 1 (Cat (Cls [(CHR ''1'', CHR ''9'')]) (Opt dig)),
     pointsAhead ''oints'',
     Star ws, Opt (Grp 2 (Cls [Ch CHR ''.'', Ch CHR '':'', Ch CHR '')'']))]"

definition reInlineCombined :: rx where
  \<comment> \<open>\<open>^\s*([1-9]\d?)(?!\s*p(?:oang|points)?\b)\s*([a-zA-Z])\s*[\)\.:]\<close>, flag u\<close>
  "reInlineCombined = cats [Bol, Star ws,
     Grp 1 (Cat (Cls [(CHR ''1'', CHR ''9'')]) (Opt dig)),
     pointsAhead ''points'',
     Star ws, Grp 2 letter, Star ws, Cls [Ch CHR '')'', Ch CHR ''.'', Ch CHR '':'']]"

definition reSubOnly :: rx where
  \<comment> \<open>\<open>^\s*\(?([a-zA-Z])\)?\s*[\)\.:]\<close>, flag u\<close>
  "reSubOnly = cats [Bol, Star ws, Opt (Chr CHR ''(''), Grp 1 letter, Opt (Chr CHR '')''),
     Star ws, Cls [Ch CHR '')'', Ch CHR ''.'', Ch CHR '':'']]"

definition reSubRange :: rx where
  \<comment> \<open>\<open>deluppgift(?:er)?[^a-zA-Z]{0,10}([a-zA-Z])\s*[\-\u2013\u2014]\s*([a-zA-Z])\<close>, flags iu\<close>
  "reSubRange = cats [lit ''deluppgift'', Opt (lit ''er''),
     Rep 0 (Some 10) (NCls [(CHR ''a'', CHR ''z''), (CHR ''A'', CHR ''Z'')]),
     Grp 1 letter, Star ws, Cls [Ch CHR ''-''], Star ws, Grp 2 letter]"

definition reContext :: rx where
  \<comment> \<open>\<open>(poa?ng|points|task|scenario|svara|beskriv|motivera|f(?:\<ouml>r|or)klara|definiera|bevisa|visa|ber[a\<auml>]kna)\<close>,
      flags iu\<close>
  "reContext = Grp 1 (alts [cats [lit ''po'', Opt (Chr CHR ''a''), lit ''ng''], lit ''points'',
     lit ''task'', lit ''scenario'', lit ''svara'', lit ''beskriv'', lit ''motivera'',
     cats [Chr CHR ''f'', Alt (Cat (Chr (CHR 0xF6)) (Chr CHR ''r'')) (lit ''or''), lit ''klara''],
     lit ''definiera'', lit ''bevisa'', lit ''visa'',
     cats [lit ''ber'', Cls [Ch CHR ''a'', Ch (CHR 0xE4)], lit ''kna'']])"

definition dateSep :: rx where
  \<comment> \<open>\<open>[\.\/\-]\<close>\<close>
  "dateSep = Cls [Ch CHR ''.'', Ch CHR ''/'', Ch CHR ''-'']"

definition reDateTime :: rx where
  \<comment> \<open>\<open>\b(?:\d{4}-\d{2}-\d{2}|\d{1,2}[\.\/\-]\d{1,2}[\.\/\-]\d{2,4}|\d{1,2}:\d{2}|(?:[01]\d|2[0-3])\d{2})\b\<close>,
      flag u\<close>
  "reDateTime = cats [WordB,
     alts [cats [Times 4 dig, Chr CHR ''-'', Times 2 dig, Chr CHR ''-'', Times 2 dig],
           cats [Rep 1 (Some 2) dig, dateSep, Rep 1 (Some 2) dig, dateSep, Rep 2 (Some 4) dig],
           cats [Rep 1 (Some 2) dig, Chr CHR '':'', Times 2 dig],
           cats [Alt (Cat (Cls [(CHR ''0'', CHR ''1'')]) dig)
                     (Cat (Chr CHR ''2'') (Cls [(CHR ''0'', CHR ''3'')])), Times 2 dig]],
     WordB]"

definition reNumericRange :: rx where
  \<comment> \<open>\<open>\b\d+\s*[\-\u2013\u2014]\s*\d+\b\<close>, flag u\<close>
  "reNumericRange = cats [WordB, Plus dig, Star ws, Cls [Ch CHR ''-''], Star ws, Plus dig, WordB]"

definition rePageIndicator :: rx where
  \<comment> \<open>\<open>\b(?:sida|page)\b(?:\s*\d+(?:\s*(?:av|of)\s*\d+)?)?\<close>, flags iu\<close>
  "rePageIndicator = cats [WordB, Alt (lit ''sida'') (lit ''page''), WordB,
     Opt (cats [Star ws, Plus dig,
       Opt (cats [Star ws, Alt (lit ''av'') (lit ''of''), Star ws, Plus dig])])]"

definition reScoreSummary :: rx where
  \<comment> \<open>\<open>\b(?:max\s*poa?ng|betyg\s*\d|betyg\b|total(?:\s*poa?ng|\s*points)?|points?)\b\<close>, flags iu\<close>
  "reScoreSummary = cats [WordB,
     alts [cats [lit ''max'', Star ws, lit ''po'', Opt (Chr CHR ''a''), lit ''ng''],
           cats [lit ''betyg'', Star ws, dig],
           cats [lit ''betyg'', WordB],
           cats [lit ''total'', Opt (Alt (cats [Star ws, lit ''po'', Opt (Chr CHR ''a''), lit ''ng''])
                                        (cats [Star ws, lit ''points'']))],
           cats [lit ''point'', Opt (Chr CHR ''s'')]],
     WordB]"

definition reNumFollowedByPoints :: rx where
  \<comment> \<open>\<open>^\s*(?:headingWord\s*)?([1-9]\d?)\s?(?:\u00A0)?(?:p(?:[\)\.]|\b)|poa?ng\b|points\b)\<close>,
      flags iu\<close>
  "reNumFollowedByPoints = cats [Bol, Star ws, Opt (Cat headingWord (Star ws)),
     Grp 1 (Cat (Cls [(CHR ''1'', CHR ''9'')]) (Opt dig)),
     Opt ws, Opt (Chr (CHR 0xA0)),
     alts [Cat (Chr CHR ''p'') (Alt (Cls [Ch CHR '')'', Ch CHR ''.'']) WordB),
           cats [lit ''po'', Opt (Chr CHR ''a''), lit ''ng'', WordB],
           cats [lit ''points'', WordB]]]"

definition reMultiNumbersRow :: rx where
  \<comment> \<open>\<open>(?:\b\d+(?:[\.,]\d+)?\b[\s,;:]{1,3}){3,}\d+\<close>, flag u\<close>
  "reMultiNumbersRow = cats [
     Rep 3 None (cats [WordB, Plus dig, Opt (Cat (Cls [Ch CHR ''.'', Ch CHR '','']) (Plus dig)), WordB,
       Rep 1 (Some 3) (Cls [(CHR 0x09, CHR 0x0D), Ch CHR '' '', Ch (CHR 0xA0),
                            Ch CHR '','', Ch CHR '';'', Ch CHR '':''])]),
     Plus dig]"

definition reSectionHeading :: rx where
  \<comment> \<open>\<open>^\s*(?:sektion|section)\s+\d+[a-z]?\b\<close>, flags iu\<close>
  "reSectionHeading = cats [Bol, Star ws, Alt (lit ''sektion'') (lit ''section''), Plus ws, Plus dig,
     Opt (Cls [(CHR ''a'', CHR ''z'')]), WordB]"

definition alphabet :: string where
  "alphabet = ''abcdefghijklmnopqrstuvwxyz''"

definition letterRange :: "string \<Rightarrow> string \<Rightarrow> string list" where
  \<comment> \<open>the letters from \<open>max('a', min(s, e))\<close> to \<open>min('z', max(s, e))\<close>, where \<open>s\<close> and
      \<open>e\<close> are the first characters of \<open>a\<close> and \<open>b\<close> in lower case\<close>
  "letterRange a b =
     (let s = to_lower (hd a);
          e = to_lower (hd b);
          lo = max CHR ''a'' (min s e);
          hi = min CHR ''z'' (max s e)
      in map (\<lambda>c. [c]) (filter (\<lambda>c. lo \<le> c \<and> c \<le> hi) alphabet))"

record DetState =
  allTokens :: "TokenMeta list"
  tokenIndex :: "(string \<times> nat) list"
  lastMain :: int
  lastMainPage :: int
  anyMainAccepted :: bool
  lastSectionPage :: int

record LineVars =
  score :: int
  mainNum :: "int option"
  subLetter :: "string option"
  excluded :: bool
  isSubOnly :: bool

definition initState :: DetState where
  "initState = \<lparr> allTokens = [], tokenIndex = [], lastMain = 0, lastMainPage = 0,
     anyMainAccepted = False, lastSectionPage = - 1 \<rparr>"

definition pushToken :: "bool \<Rightarrow> TokenMeta \<Rightarrow> DetState \<Rightarrow> DetState" where
  \<comment> \<open>a new token is appended; a repeated one only leaves its position, and only when
      \<open>dbg\<close> holds\<close>
  "pushToken dbg tk st =
     (case map_of (tokenIndex st) (tk_token tk) of
        None \<Rightarrow> st \<lparr> tokenIndex := tokenIndex st @ [(tk_token tk, length (allTokens st))],
                      allTokens := allTokens st @ [tk] \<rparr>
      | Some idx \<Rightarrow>
          if dbg
          then st \<lparr> allTokens := (allTokens st)
                 [idx := (allTokens st ! idx) \<lparr> tk_positions :=
                    tk_positions (allTokens st ! idx) @ [(tk_page tk, tk_x tk, tk_y tk)] \<rparr>] \<rparr>
          else st)"

definition sameNumber :: "(nat \<times> string \<times> string \<times> caps) option \<Rightarrow> int option \<Rightarrow> bool" where
  \<comment> \<open>\<open>fp && parseInt(fp[1], 10) === mainNum\<close>\<close>
  "sameNumber fp mn =
     (case fp of
        None \<Rightarrow> False
      | Some (i, m0, rest, c) \<Rightarrow>
          (case (parseInt (capd c 1), mn) of (Some a, Some b) \<Rightarrow> a = b | _ \<Rightarrow> False))"

definition confFromScore :: "rat \<Rightarrow> int \<Rightarrow> rat" where
  "confFromScore thr s = max 0 (min 1 ((of_int s - thr) / max 1 (10 - thr)))"

definition seqDelta :: "DetState \<Rightarrow> int \<Rightarrow> int \<Rightarrow> int" where
  \<comment> \<open>the sequence heuristics, as a change of the score\<close>
  "seqDelta st page n =
     (if lastMain st > 0 then
        (if n = lastMain st + 1 then 2
         else if n = lastMain st then 1
         else if n = lastMain st + 2 then 0
         else if n < lastMain st - 1 \<and> page > lastMainPage st + 1
                 \<and> \<not> (lastSectionPage st \<ge> lastMainPage st) then - 2
         else 0)
      else (if n > 5 \<and> page \<le> 2 then - 3 else 0) + (if n \<ge> 15 then - 2 else 0))"

definition scanLine ::
  "DetectorConfig \<Rightarrow> int \<Rightarrow> rat \<Rightarrow> rat \<Rightarrow> Line \<Rightarrow> string \<Rightarrow> DetState \<Rightarrow> DetState" where
  "scanLine conf page xThreshold maxY line nextText st =
     (let t = normalizeTextKeepLines (ln_text line);
          headerFoot = isHeaderFooter (ln_y line) 0 maxY (headerFooterPercent conf);
          nearby = slice (t @ '' '' @ nextText) 0 (contextWindow conf + 40);
          m = rx_match True reMainHead t;
          v1 = (case m of
                  None \<Rightarrow> \<lparr> score = 0, mainNum = None, subLetter = None, excluded = False,
                             isSubOnly = False \<rparr>
                | Some (i, m0, rest, c) \<Rightarrow>
                    \<lparr> score = (if rx_test True headRe t then 3 else 0)
                              + (if cap c 2 \<noteq> None then 2 else 0),
                      mainNum = parseInt (capd c 1), subLetter = None,
                      excluded = sameNumber (rx_match True reNumFollowedByPoints t)
                                   (parseInt (capd c 1)),
                      isSubOnly = False \<rparr>);
          v2 = (if m = None then
                  (case rx_match False reInlineCombined t of
                     None \<Rightarrow> v1
                   | Some (i, m0, rest, c) \<Rightarrow>
                       v1 \<lparr> mainNum := parseInt (capd c 1),
                            subLetter := Some (toLowerCase (capd c 2)),
                            excluded := sameNumber (rx_match True reNumFollowedByPoints t)
                                          (parseInt (capd c 1)),
                            score := score v1 + 2 \<rparr>)
                else v1);
          v3 = (if m = None \<and> subLetter v2 = None then
                  (case rx_match False reSubOnly t of
                     None \<Rightarrow> v2
                   | Some (i, m0, rest, c) \<Rightarrow>
                       v2 \<lparr> subLetter := Some (toLowerCase (capd c 1)), isSubOnly := True \<rparr>)
                else v2);
          v4 = (if mainNum v3 \<noteq> None \<and> ln_x line \<le> xThreshold
                then v3 \<lparr> score := score v3 + 2 \<rparr> else v3);
          v5 = (if mainNum v4 \<noteq> None \<and> rx_test True reContext nearby
                then v4 \<lparr> score := score v4 + 1 \<rparr> else v4);
          sect = (rx_test True reSectionHeading t \<and> ln_x line \<le> xThreshold);
          st1 = (if sect then st \<lparr> lastMain := 0, lastSectionPage := page \<rparr> else st);
          v6 = (if sect then v5 \<lparr> excluded := True \<rparr> else v5);
          v7 = (if rx_test False reDateTime t \<or> rx_test False reNumericRange t
                then v6 \<lparr> score := score v6 - 3 \<rparr> else v6);
          v8 = (if rx_test False reMultiNumbersRow t then v7 \<lparr> score := score v7 - 2 \<rparr> else v7);
          v9 = (if rx_test True rePageIndicator t then v8 \<lparr> excluded := True \<rparr> else v8);
          v10 = (if rx_test True reScoreSummary t then v9 \<lparr> excluded := True \<rparr> else v9);
          v11 = (if headerFoot \<noteq> None then v10 \<lparr> score := score v10 - 2 \<rparr> else v10);
          v = (case mainNum v11 of
                 None \<Rightarrow> v11
               | Some n \<Rightarrow> v11 \<lparr> score := score v11 + seqDelta st1 page n \<rparr>);
          thr = scoreThreshold conf;
          acceptedMain = (\<not> excluded v \<and> mainNum v \<noteq> None \<and> of_int (score v) \<ge> thr);
          st2 = (case mainNum v of
                   None \<Rightarrow> st1
                 | Some n \<Rightarrow>
                     if acceptedMain
                     then (pushToken (debug conf)
                             \<lparr> tk_token = String n, tk_kind = KMain, tk_parent = None,
                               tk_page = page, tk_x = ln_x line, tk_y = ln_y line,
                               tk_confidence = confFromScore thr (score v), tk_positions = [] \<rparr> st1)
                          \<lparr> lastMain := max (lastMain st1) n, lastMainPage := page,
                            anyMainAccepted := True \<rparr>
                     else st1);
          st3 = (case subLetter v of
                   None \<Rightarrow> st2
                 | Some L \<Rightarrow>
                     if acceptedMain \<or> (\<not> isSubOnly v \<and> anyMainAccepted st2) \<or> lastMain st2 > 0
                     then (let parent =
                                 (if acceptedMain then (case mainNum v of Some n \<Rightarrow> String n | None \<Rightarrow> [])
                                  else if lastMain st2 \<noteq> 0 then String (lastMain st2)
                                  else (case mainNum v of Some n \<Rightarrow> String n | None \<Rightarrow> []))
                           in if parent \<noteq> []
                              then pushToken (debug conf)
                                     \<lparr> tk_token = parent @ L, tk_kind = KSub, tk_parent = Some parent,
                                       tk_page = page, tk_x = ln_x line, tk_y = ln_y line,
                                       tk_confidence = confFromScore thr (score v),
                                       tk_positions = [] \<rparr> st2
                              else st2)
                     else st2);
          st4 = (case mainNum v of
                   None \<Rightarrow> st3
                 | Some n \<Rightarrow>
                     if acceptedMain
                     then (case rx_match True reSubRange nearby of
                             None \<Rightarrow> st3
                           | Some (i, m0, rest, c) \<Rightarrow>
                               foldl (\<lambda>s L. pushToken False
                                        \<lparr> tk_token = String n @ L, tk_kind = KSub,
                                          tk_parent = Some (String n), tk_page = page,
                                          tk_x = ln_x line, tk_y = ln_y line,
                                          tk_confidence = confFromScore thr (score v),
                                          tk_positions = [] \<rparr> s)
                                 st3 (letterRange (capd c 1) (capd c 2)))
                     else st3)
      in st4)"

fun scanLines ::
  "DetectorConfig \<Rightarrow> int \<Rightarrow> rat \<Rightarrow> rat \<Rightarrow> DetState \<Rightarrow> Line list \<Rightarrow> DetState" where
  "scanLines conf page xThreshold maxY st [] = st"
| "scanLines conf page xThreshold maxY st (line # rest) =
     scanLines conf page xThreshold maxY
       (scanLine conf page xThreshold maxY line
          (case rest of [] \<Rightarrow> [] | nx # ys \<Rightarrow> normalizeTextKeepLines (ln_text nx)) st)
       rest"

definition maxOf :: "rat list \<Rightarrow> rat" where
  \<comment> \<open>\<open>Math.max(...)\<close> of a list that is not empty\<close>
  "maxOf ys = foldl max (hd ys) (tl ys)"

definition minOf :: "rat list \<Rightarrow> rat" where
  "minOf ys = foldl min (hd ys) (tl ys)"

definition scanPage ::
  "DetectorConfig \<Rightarrow> rat \<Rightarrow> (int \<times> Line list) list \<Rightarrow> DetState \<Rightarrow> PageInput \<Rightarrow> DetState" where
  "scanPage conf xThresholdGlobal linesByPage st pageInput =
     (let page = pg_page pageInput;
          lines = (case map_of linesByPage page of None \<Rightarrow> [] | Some ls \<Rightarrow> ls)
      in if pg_items pageInput = [] \<or> lines = [] then st
         else let maxY = (case pg_height pageInput of Some h \<Rightarrow> h | None \<Rightarrow> maxOf (map ln_y lines))
              in scanLines conf page xThresholdGlobal maxY st lines)"

definition docCmp :: "TokenMeta \<Rightarrow> TokenMeta \<Rightarrow> rat" where
  \<comment> \<open>\<open>(a.page - b.page) || (b.y - a.y) || (a.x - b.x)\<close>\<close>
  "docCmp a b = or_else (of_int (tk_page a - tk_page b)) (or_else (tk_y b - tk_y a) (tk_x a - tk_x b))"

text \<open>
  The detector with the final sort. The result of the source also carries a debug
  record, which no caller reads; the model returns the tokens. The map \<open>linesByPage\<close>
  keeps, for a page number given twice, the lines built last.
\<close>

definition detectQuestionsFromPages :: "PageInput list \<Rightarrow> DetectorConfig \<Rightarrow> TokenMeta list" where
  "detectQuestionsFromPages pages conf =
     (let built = map (\<lambda>pg. (pg_page pg, buildLinesFromItems (pg_items pg) (pg_page pg) conf)) pages;
          allXs = concat (map (\<lambda>(p, ls). map ln_x ls) built);
          xThresholdGlobal = percentile allXs (leftMarginPercentile conf);
          st = foldl (scanPage conf xThresholdGlobal (rev built)) initState pages
      in js_sort docCmp (allTokens st))"

subsection \<open>The copy without the final sort\<close>

text \<open>
  The repository holds a second copy of the detector, with its own patterns. It keeps the
  tokens in the order of their first appearance, and its loop body assigns to the
  variable \<open>excluded\<close> above the \<open>let\<close> that declares it: JavaScript raises a
  ReferenceError at such an assignment.
\<close>

datatype error = ReferenceError | Thrown string

definition headingWord2 :: rx where
  \<comment> \<open>\<open>(?:uppgift|problem|fraga|fr\<aa>ga|question|section|sektion|q)\<close>\<close>
  "headingWord2 = alts [lit ''uppgift'', lit ''problem'', lit ''fraga'',
     cats [lit ''fr'', Chr (CHR 0xE5), lit ''ga''],
     lit ''question'', lit ''section'', lit ''sektion'', Chr CHR ''q'']"

definition head2 :: rx where
  \<comment> \<open>\<open>new RegExp('^\s*' + headingWord, 'i')\<close>: in the string literal \<open>\s\<close> is the letter s\<close>
  "head2 = cats [Bol, Star (Chr CHR ''s''), headingWord2]"

definition reMainHead2 :: rx where
  \<comment> \<open>\<open>^\s*(?:headingWord\s*)?([1-9]\d?)(?!\s*p(?:oang|oints)?\b)\s*([\.:\)])?\<close>, flag i\<close>
  "reMainHead2 = cats [Bol, Star ws, Opt (Cat headingWord2 (Star ws)),
     Grp 1 (Cat (Cls [(CHR ''1'', CHR ''9'')]) (Opt dig)),
     pointsAhead ''oints'',
     Star ws, Opt (Grp 2 (Cls [Ch CHR ''.'', Ch CHR '':'', Ch CHR '')'']))]"

definition reInlineCombined2 :: rx where
  \<comment> \<open>\<open>^\s*([1-9]\d?)(?!\s*p(?:oang|points)?\b)\s*([a-zA-Z])\s*\)\<close>\<close>
  "reInlineCombined2 = cats [Bol, Star ws,
     Grp 1 (Cat (Cls [(CHR ''1'', CHR ''9'')]) (Opt dig)),
     pointsAhead ''points'',
     Star ws, Grp 2 letter, Star ws, Chr CHR '')'']"

definition reSubOnly2 :: rx where
  \<comment> \<open>\<open>^\s*\(?([a-zA-Z])\)?\s*\)\<close>\<close>
  "reSubOnly2 = cats [Bol, Star ws, Opt (Chr CHR ''(''), Grp 1 letter, Opt (Chr CHR '')''),
     Star ws, Chr CHR '')'']"

definition reContext2 :: rx where
  \<comment> \<open>\<open>(poa?ng|points|task|scenario|svara|beskriv)\<close>, flag i\<close>
  "reContext2 = Grp 1 (alts [cats [lit ''po'', Opt (Chr CHR ''a''), lit ''ng''], lit ''points'',
     lit ''task'', lit ''scenario'', lit ''svara'', lit ''beskriv''])"

definition reDateTime2 :: rx where
  \<comment> \<open>\<open>\b(?:\d{4}-\d{2}-\d{2}|\d{1,2}[\.\/\-]\d{1,2}[\.\/\-]\d{2,4}|\d{1,2}:\d{2})\b\<close>\<close>
  "reDateTime2 = cats [WordB,
     alts [cats [Times 4 dig, Chr CHR ''-'', Times 2 dig, Chr CHR ''-'', Times 2 dig],
           cats [Rep 1 (Some 2) dig, dateSep, Rep 1 (Some 2) dig, dateSep, Rep 2 (Some 4) dig],
           cats [Rep 1 (Some 2) dig, Chr CHR '':'', Times 2 dig]],
     WordB]"

definition rePageIndicator2 :: rx where
  \<comment> \<open>\<open>\b(?:sida|page)\s*\d+(?:\s*(?:av|of)\s*\d+)?\b\<close>, flag i\<close>
  "rePageIndicator2 = cats [WordB, Alt (lit ''sida'') (lit ''page''), Star ws, Plus dig,
     Opt (cats [Star ws, Alt (lit ''av'') (lit ''of''), Star ws, Plus dig]), WordB]"

definition reNumFollowedByPoints2 :: rx where
  \<comment> \<open>\<open>^\s*(?:headingWord\s*)?([1-9]\d?)\s{0,1}p(?:oang|oints)?\b\<close>, flag i\<close>
  "reNumFollowedByPoints2 = cats [Bol, Star ws, Opt (Cat headingWord2 (Star ws)),
     Grp 1 (Cat (Cls [(CHR ''1'', CHR ''9'')]) (Opt dig)),
     Opt ws, Chr CHR ''p'', Opt (Alt (lit ''oang'') (lit ''oints'')), WordB]"

definition seqDelta2 :: "DetState \<Rightarrow> int \<Rightarrow> int \<Rightarrow> int" where
  "seqDelta2 st page n =
     (if lastMain st > 0 then
        (if n = lastMain st + 1 then 2
         else if n = lastMain st then 1
         else if n = lastMain st + 2 then 0
         else if n < lastMain st - 1 \<and> page > lastMainPage st + 1 then - 2
         else 0)
      else (if n > 5 \<and> page \<le> 2 then - 3 else 0) + (if n \<ge> 15 then - 2 else 0))"

definition clamp01 :: "rat \<Rightarrow> rat" where
  "clamp01 q = max 0 (min 1 q)"

definition scanLine2 ::
  "DetectorConfig \<Rightarrow> int \<Rightarrow> rat \<Rightarrow> rat \<Rightarrow> rat \<Rightarrow> Line \<Rightarrow> string \<Rightarrow> DetState \<Rightarrow> error + DetState" where
  "scanLine2 conf page xThreshold minY maxY line nextText st =
     (let t = normalizeTextKeepLines (ln_text line);
          headerFoot = isHeaderFooter (ln_y line) minY maxY (headerFooterPercent conf);
          nearby = slice (t @ '' '' @ nextText) 0 (contextWindow conf + 40);
          m = rx_match True reMainHead2 t;
          v1 = (case m of
                  None \<Rightarrow> \<lparr> score = 0, mainNum = None, subLetter = None, excluded = False,
                             isSubOnly = False \<rparr>
                | Some (i, m0, rest, c) \<Rightarrow>
                    \<lparr> score = (if rx_test True head2 t then 3 else 0)
                              + (if cap c 2 \<noteq> None then 2 else 0),
                      mainNum = parseInt (capd c 1), subLetter = None, excluded = False,
                      isSubOnly = False \<rparr>);
          early1 = (m \<noteq> None
                    \<and> sameNumber (rx_match True reNumFollowedByPoints2 t) (mainNum v1));
          mi = (if m = None then rx_match False reInlineCombined2 t else None);
          v2 = (case mi of
                  None \<Rightarrow> v1
                | Some (i, m0, rest, c) \<Rightarrow>
                    v1 \<lparr> mainNum := parseInt (capd c 1),
                         subLetter := Some (toLowerCase (capd c 2)),
                         score := score v1 + 2 \<rparr>);
          early2 = (mi \<noteq> None
                    \<and> sameNumber (rx_match True reNumFollowedByPoints2 t) (mainNum v2))
      in if early1 \<or> early2 then Inl ReferenceError
         else Inr
          (let v3 = (if m = None \<and> subLetter v2 = None then
                       (case rx_match False reSubOnly2 t of
                          None \<Rightarrow> v2
                        | Some (i, m0, rest, c) \<Rightarrow>
                            v2 \<lparr> subLetter := Some (toLowerCase (capd c 1)), isSubOnly := True \<rparr>)
                     else v2);
               v4 = (if mainNum v3 \<noteq> None \<and> ln_x line \<le> xThreshold
                     then v3 \<lparr> score := score v3 + 2 \<rparr> else v3);
               v5 = (if mainNum v4 \<noteq> None \<and> rx_test True reContext2 nearby
                     then v4 \<lparr> score := score v4 + 1 \<rparr> else v4);
               v7 = (if rx_test False reDateTime2 t \<or> rx_test False reNumericRange t
                     then v5 \<lparr> score := score v5 - 3 \<rparr> else v5);
               v8 = (if rx_test False reMultiNumbersRow t then v7 \<lparr> score := score v7 - 2 \<rparr> else v7);
               v9 = (if rx_test True rePageIndicator2 t then v8 \<lparr> excluded := True \<rparr> else v8);
               v10 = (if rx_test True reScoreSummary t then v9 \<lparr> excluded := True \<rparr> else v9);
               v11 = (if headerFoot \<noteq> None then v10 \<lparr> score := score v10 - 2 \<rparr> else v10);
               v = (case mainNum v11 of
                      None \<Rightarrow> v11
                    | Some n \<Rightarrow> v11 \<lparr> score := score v11 + seqDelta2 st page n \<rparr>);
               thr = scoreThreshold conf;
               acceptedMain = (\<not> excluded v \<and> mainNum v \<noteq> None \<and> of_int (score v) \<ge> thr);
               st2 = (case mainNum v of
                        None \<Rightarrow> st
                      | Some n \<Rightarrow>
                          if acceptedMain
                          then (pushToken (debug conf)
                                  \<lparr> tk_token = String n, tk_kind = KMain, tk_parent = None,
                                    tk_page = page, tk_x = ln_x line, tk_y = ln_y line,
                                    tk_confidence = clamp01 ((of_int (score v) - (thr - 1)) / 8),
                                    tk_positions = [] \<rparr> st)
                               \<lparr> lastMain := max (lastMain st) n, lastMainPage := page,
                                 anyMainAccepted := True \<rparr>
                          else st);
               st3 = (case subLetter v of
                        None \<Rightarrow> st2
                      | Some L \<Rightarrow>
                          if acceptedMain \<or> (\<not> isSubOnly v \<and> anyMainAccepted st2) \<or> lastMain st2 > 0
                          then (let parent =
                                      (if acceptedMain
                                       then (case mainNum v of Some n \<Rightarrow> String n | None \<Rightarrow> [])
                                       else if lastMain st2 \<noteq> 0 then String (lastMain st2)
                                       else (case mainNum v of Some n \<Rightarrow> String n | None \<Rightarrow> []))
                                in if parent \<noteq> []
                                   then pushToken (debug conf)
                                          \<lparr> tk_token = parent @ L, tk_kind = KSub,
                                            tk_parent = Some parent, tk_page = page,
                                            tk_x = ln_x line, tk_y = ln_y line,
                                            tk_confidence = clamp01 ((of_int (score v) - (thr - 2)) / 8),
                                            tk_positions = [] \<rparr> st2
                                   else st2)
                          else st2);
               st4 = (case mainNum v of
                        None \<Rightarrow> st3
                      | Some n \<Rightarrow>
                          if acceptedMain
                          then (case rx_match True reSubRange nearby of
                                  None \<Rightarrow> st3
                                | Some (i, m0, rest, c) \<Rightarrow>
                                    foldl (\<lambda>s L. pushToken False
                                             \<lparr> tk_token = String n @ L, tk_kind = KSub,
                                               tk_parent = Some (String n), tk_page = page,
                                               tk_x = ln_x line, tk_y = ln_y line,
                                               tk_confidence = 6 / 10, tk_positions = [] \<rparr> s)
                                      st3 (letterRange (capd c 1) (capd c 2)))
                          else st3)
           in st4))"

fun scanLines2 ::
  "DetectorConfig \<Rightarrow> int \<Rightarrow> rat \<Rightarrow> rat \<Rightarrow> rat \<Rightarrow> DetState \<Rightarrow> Line list \<Rightarrow> error + DetState" where
  "scanLines2 conf page xThreshold minY maxY st [] = Inr st"
| "scanLines2 conf page xThreshold minY maxY st (line # rest) =
     (case scanLine2 conf page xThreshold minY maxY line
             (case rest of [] \<Rightarrow> [] | nx # ys \<Rightarrow> normalizeTextKeepLines (ln_text nx)) st of
        Inl e \<Rightarrow> Inl e
      | Inr st' \<Rightarrow> scanLines2 conf page xThreshold minY maxY st' rest)"

definition scanPage2 :: "DetectorConfig \<Rightarrow> DetState \<Rightarrow> PageInput \<Rightarrow> error + DetState" where
  "scanPage2 conf st pageInput =
     (if pg_items pageInput = [] then Inr st
      else let lines = buildLinesFromItems (pg_items pageInput) (pg_page pageInput) conf
           in if lines = [] then Inr st
              else scanLines2 conf (pg_page pageInput)
                     (percentile (map ln_x lines) (leftMarginPercentile conf))
                     (minOf (map ln_y lines)) (maxOf (map ln_y lines)) st lines)"

fun scanPages2 :: "DetectorConfig \<Rightarrow> DetState \<Rightarrow> PageInput list \<Rightarrow> error + DetState" where
  "scanPages2 conf st [] = Inr st"
| "scanPages2 conf st (pg # pgs) =
     (case scanPage2 conf st pg of Inl e \<Rightarrow> Inl e | Inr st' \<Rightarrow> scanPages2 conf st' pgs)"

definition detectQuestionsFromPages2 ::
  "PageInput list \<Rightarrow> DetectorConfig \<Rightarrow> error + TokenMeta list" where
  "detectQuestionsFromPages2 pages conf =
     (case scanPages2 conf initState pages of Inl e \<Rightarrow> Inl e | Inr st \<Rightarrow> Inr (allTokens st))"

section \<open>The line-based and the flat-text question extractors\<close>

text \<open>\<open>s.split(re)\<close>; no pattern that the source splits on matches the empty string.\<close>

function rx_split :: "bool \<Rightarrow> rx \<Rightarrow> char option \<Rightarrow> string \<Rightarrow> string list" where
  "rx_split ci r p s =
     (case rx_search ci r 0 p s of
        None \<Rightarrow> [s]
      | Some (j, m, s', c) \<Rightarrow>
          if length s' < length s \<and> m \<noteq> []
          then take j s # rx_split ci r (last_opt p (take (length s - length s') s)) s'
          else [s])"
  by pat_completeness auto
termination
  by (relation "measure (\<lambda>(ci, r, p, s). length s)") auto

definition splitLines :: "string \<Rightarrow> string list" where
  \<comment> \<open>\<open>text.split(/\r?\n/)\<close>\<close>
  "splitLines text = rx_split False (Cat (Opt (Chr (CHR 0x0D))) (Chr (CHR 0x0A))) None text"

record Question =
  q_id :: string
  q_number :: string
  q_points :: int
  q_page :: "int option"
  q_confidence :: "int option"

text \<open>
  A question object of the source also has the fields \<open>theme\<close>, \<open>status\<close>,
  \<open>difficulty\<close> and \<open>comments\<close>, which are the same constants in every object.
\<close>

record QState =
  mainOrder :: "int list"
  hasMain :: "int list"
  subOrder :: "(int \<times> string list) list"
  pointsByToken :: "(string \<times> int) list"
  pageByToken :: "(string \<times> int) list"
  currentMain :: "int option"

definition emptyQ :: QState where
  "emptyQ = \<lparr> mainOrder = [], hasMain = [], subOrder = [], pointsByToken = [],
     pageByToken = [], currentMain = None \<rparr>"

definition has :: "'k \<Rightarrow> ('k \<times> 'v) list \<Rightarrow> bool" where
  "has k m = (map_of m k \<noteq> None)"

definition put :: "'k \<Rightarrow> 'v \<Rightarrow> ('k \<times> 'v) list \<Rightarrow> ('k \<times> 'v) list" where
  \<comment> \<open>the maps of the extractors are only looked up, so the latest entry comes first\<close>
  "put k v m = (k, v) # m"

definition ensureMain :: "int \<Rightarrow> QState \<Rightarrow> QState" where
  "ensureMain n st =
     (let st1 = (if n \<in> set (hasMain st) then st
                 else st \<lparr> hasMain := n # hasMain st, mainOrder := mainOrder st @ [n] \<rparr>)
      in if has n (subOrder st1) then st1 else st1 \<lparr> subOrder := put n [] (subOrder st1) \<rparr>)"

definition subsOf :: "QState \<Rightarrow> int \<Rightarrow> string list" where
  "subsOf st n = (case map_of (subOrder st) n of None \<Rightarrow> [] | Some a \<Rightarrow> a)"

definition addLetter :: "int \<Rightarrow> string \<Rightarrow> QState \<Rightarrow> QState" where
  \<comment> \<open>\<open>ensureMain(n); const arr = subOrder.get(n)!; if (!arr.includes(L)) arr.push(L)\<close>\<close>
  "addLetter n L st =
     (let st1 = ensureMain n st
      in if L \<in> set (subsOf st1 n) then st1
         else st1 \<lparr> subOrder := put n (subsOf st1 n @ [L]) (subOrder st1) \<rparr>)"

definition setPage :: "string \<Rightarrow> int option \<Rightarrow> QState \<Rightarrow> QState" where
  \<comment> \<open>\<open>if (!pageByToken.has(token)) pageByToken.set(token, page)\<close>; the flat-text extractor
      keeps no pages and passes \<open>None\<close>\<close>
  "setPage token page st =
     (case page of
        None \<Rightarrow> st
      | Some pg \<Rightarrow>
          if has token (pageByToken st) then st
          else st \<lparr> pageByToken := put token pg (pageByToken st) \<rparr>)"

definition setPoints :: "string \<Rightarrow> int \<Rightarrow> QState \<Rightarrow> QState" where
  "setPoints token v st =
     (if has token (pointsByToken st) then st
      else st \<lparr> pointsByToken := put token v (pointsByToken st) \<rparr>)"

definition poang :: rx where
  \<comment> \<open>\<open>p(?:oang)?\<close>\<close>
  "poang = Cat (Chr CHR ''p'') (Opt (lit ''oang''))"

definition ptsPatterns :: "rx list" where
  \<comment> \<open>\<open>/\((\d{1,3})\s*p(?:oang)?\)/i\<close>, \<open>/(\d{1,3})\s*p(?:oang)?\b/i\<close>,
      \<open>/\b(?:poang|points)\s*:?\s*(\d{1,3})\b/i\<close>\<close>
  "ptsPatterns =
     [cats [Chr CHR ''('', Grp 1 (Rep 1 (Some 3) dig), Star ws, poang, Chr CHR '')''],
      cats [Grp 1 (Rep 1 (Some 3) dig), Star ws, poang, WordB],
      cats [WordB, Alt (lit ''poang'') (lit ''points''), Star ws, Opt (Chr CHR '':''), Star ws,
            Grp 1 (Rep 1 (Some 3) dig), WordB]]"

fun firstPts :: "rx list \<Rightarrow> string \<Rightarrow> int option" where
  "firstPts [] s = None"
| "firstPts (re # res) s =
     (case rx_match True re s of
        None \<Rightarrow> firstPts res s
      | Some (i, m0, rest, c) \<Rightarrow>
          (case parseInt (capd c 1) of None \<Rightarrow> firstPts res s | Some v \<Rightarrow> Some v))"

definition parsePts :: "string \<Rightarrow> int option" where
  "parsePts seg = firstPts ptsPatterns (normalizeDiacritics seg)"

definition rePtsList :: rx where
  \<comment> \<open>\<open>\((\s*\d{1,3}(?:\s*\+\s*\d{1,3})+)\)\s*p?(?:oang)?\<close>, flag i\<close>
  "rePtsList = cats [Chr CHR ''('',
     Grp 1 (cats [Star ws, Rep 1 (Some 3) dig,
                  Plus (cats [Star ws, Chr CHR ''+'', Star ws, Rep 1 (Some 3) dig])]),
     Chr CHR '')'', Star ws, Opt (Chr CHR ''p''), Opt (lit ''oang'')]"

definition parsePtsList :: "string \<Rightarrow> int list option" where
  "parsePtsList seg =
     (case rx_match True rePtsList (normalizeDiacritics seg) of
        None \<Rightarrow> None
      | Some (i, m0, rest, c) \<Rightarrow>
          (let list = List.map_filter (\<lambda>piece. parseInt (trim piece))
                        (rx_split False (Chr CHR ''+'') None (capd c 1))
           in if length list \<ge> 2 then Some list else None))"

definition uprefixWords :: rx where
  \<comment> \<open>\<open>(?:uppg(?:ift)?|problem|fraga|question|q)\<close>\<close>
  "uprefixWords = alts [Cat (lit ''uppg'') (Opt (lit ''ift'')), lit ''problem'', lit ''fraga'',
     lit ''question'', Chr CHR ''q'']"

definition punct :: rx where
  \<comment> \<open>\<open>[\)\.:]\<close>\<close>
  "punct = Cls [Ch CHR '')'', Ch CHR ''.'', Ch CHR '':'']"

definition mainLineRe :: rx where
  \<comment> \<open>\<open>^(?:uppg(?:ift)?|problem|fraga|question|q)?\s*([1-9]\d?)\s*(?:[\)\.:]|\b)\<close>, flag i\<close>
  "mainLineRe = cats [Bol, Opt uprefixWords, Star ws,
     Grp 1 (Cat (Cls [(CHR ''1'', CHR ''9'')]) (Opt dig)), Star ws, Alt punct WordB]"

definition letterLineRe :: rx where
  \<comment> \<open>\<open>^(?:deluppgift\s*)?\(?([a-zA-Z])\)?\s*[\)\.:]\<close>\<close>
  "letterLineRe = cats [Bol, Opt (Cat (lit ''deluppgift'') (Star ws)), Opt (Chr CHR ''(''),
     Grp 1 letter, Opt (Chr CHR '')''), Star ws, punct]"

definition combinedRe :: rx where
  \<comment> \<open>\<open>(?:\b(?:uppgift|problem|fraga|question|q)\s*)?([1-9]\d?)\s*([a-zA-Z])\s*[\)\.:]\<close>,
      flag g\<close>
  "combinedRe = cats [
     Opt (cats [WordB, alts [lit ''uppgift'', lit ''problem'', lit ''fraga'', lit ''question'',
                             Chr CHR ''q''], Star ws]),
     Grp 1 (Cat (Cls [(CHR ''1'', CHR ''9'')]) (Opt dig)), Star ws, Grp 2 letter, Star ws, punct]"

definition eachRe :: rx where
  \<comment> \<open>\<open>deluppgift(?:er)?[^a-zA-Z]{0,10}([a-zA-Z])\s*[\-\u2013\u2014]\s*([a-zA-Z]).*?(vardera|var)\<close>,
      flag i\<close>
  "eachRe = cats [lit ''deluppgift'', Opt (lit ''er''),
     Rep 0 (Some 10) (NCls [(CHR ''a'', CHR ''z''), (CHR ''A'', CHR ''Z'')]),
     Grp 1 letter, Star ws, Cls [Ch CHR ''-''], Star ws, Grp 2 letter, Lazy Dot,
     Grp 3 (Alt (lit ''vardera'') (lit ''var''))]"

definition nearPts :: "string \<Rightarrow> nat \<Rightarrow> nat \<Rightarrow> int option" where
  \<comment> \<open>points in the 120 characters after a match, else in the 50 characters before it\<close>
  "nearPts t idx e =
     (case parsePts (slice t e (e + 120)) of
        Some v \<Rightarrow> Some v
      | None \<Rightarrow> parsePts (slice t (idx - 50) idx))"

definition combinedStep :: "string \<Rightarrow> int option \<Rightarrow> QState \<Rightarrow> nat \<times> string \<times> caps \<Rightarrow> QState" where
  "combinedStep t page st mt =
     (case mt of (idx, m0, c) \<Rightarrow>
        (case parseInt (capd c 1) of
           None \<Rightarrow> st
         | Some n \<Rightarrow>
             (let L = toLowerCase (capd c 2);
                  token = String n @ L;
                  st1 = setPage token page (addLetter n L st)
              in if has token (pointsByToken st1) then st1
                 else (case nearPts t idx (idx + length m0) of
                         None \<Rightarrow> st1
                       | Some v \<Rightarrow> st1 \<lparr> pointsByToken := put token v (pointsByToken st1) \<rparr>))))"

definition eachStep :: "int \<Rightarrow> int option \<Rightarrow> string \<Rightarrow> QState \<Rightarrow> QState" where
  \<comment> \<open>"Deluppgifter a-d: 3p vardera"\<close>
  "eachStep n page nearby st =
     (case rx_match True eachRe nearby of
        None \<Rightarrow> st
      | Some (i, m0, rest, c) \<Rightarrow>
          (case parsePts nearby of
             None \<Rightarrow> st
           | Some ptsEach \<Rightarrow>
               foldl (\<lambda>s L. setPoints (String n @ L) ptsEach
                               (setPage (String n @ L) page (addLetter n L s)))
                 st (letterRange (capd c 1) (capd c 2))))"

definition newSubs :: "nat \<Rightarrow> string list" where
  \<comment> \<open>the letters a, b, ... for a list of \<open>k\<close> points, at most 26\<close>
  "newSubs k = map (\<lambda>c. [c]) (take (min 26 k) alphabet)"

definition listStep :: "int \<Rightarrow> int option \<Rightarrow> string \<Rightarrow> QState \<Rightarrow> QState" where
  \<comment> \<open>"(3+2+1)p"\<close>
  "listStep n page nearby st =
     (case parsePtsList nearby of
        None \<Rightarrow> st
      | Some list \<Rightarrow>
          (let st1 = ensureMain n st;
               st2 = (if subsOf st1 n = []
                      then st1 \<lparr> subOrder := put n (newSubs (length list)) (subOrder st1) \<rparr>
                      else st1);
               subs = subsOf st2 n
           in foldl (\<lambda>s k. setPoints (String n @ subs ! k) (list ! k)
                              (setPage (String n @ subs ! k) page s))
                st2 [0 ..< min (length subs) (length list)]))"

definition lineStep :: "TextLine \<Rightarrow> string option \<Rightarrow> QState \<Rightarrow> QState" where
  \<comment> \<open>one turn of the loop over the lines; \<open>nxt\<close> is the normalised text of the next line\<close>
  "lineStep line nxt st =
     (let t = normalizeDiacritics (tl_text line);
          page = Some (tl_page line);
          st1 = foldl (combinedStep t page) st (rx_all False combinedRe 0 None t);
          nextPts = (case nxt of None \<Rightarrow> None | Some nt \<Rightarrow> parsePts nt);
          nextTxt = (case nxt of None \<Rightarrow> [] | Some nt \<Rightarrow> nt);
          mm = (case rx_match True mainLineRe t of
                  None \<Rightarrow> None
                | Some (i, m0, rest, c) \<Rightarrow>
                    (case parseInt (capd c 1) of None \<Rightarrow> None | Some n \<Rightarrow> Some (n, m0)))
      in case mm of
           Some (n, m0) \<Rightarrow>
             (let st2 = setPage (String n) page ((ensureMain n st1) \<lparr> currentMain := Some n \<rparr>);
                  rem = drop (length m0) t;
                  pts = (case parsePts rem of Some v \<Rightarrow> Some v | None \<Rightarrow> nextPts);
                  st3 = (case pts of None \<Rightarrow> st2 | Some v \<Rightarrow> setPoints (String n) v st2);
                  nearby = rem @ '' '' @ nextTxt
              in listStep n page nearby (eachStep n page nearby st3))
         | None \<Rightarrow>
             (case (rx_match False letterLineRe t, currentMain st1) of
                (Some (i, m0, rest, c), Some cm) \<Rightarrow>
                  (let L = toLowerCase (capd c 1);
                       st2 = addLetter cm L st1;
                       rem = drop (length m0) t;
                       pts = (case parsePts rem of Some v \<Rightarrow> Some v | None \<Rightarrow> nextPts);
                       token = String cm @ L;
                       st3 = setPage token page st2
                   in (case pts of None \<Rightarrow> st3 | Some v \<Rightarrow> setPoints token v st3))
              | _ \<Rightarrow> st1))"

fun scanTextLines :: "QState \<Rightarrow> TextLine list \<Rightarrow> QState" where
  "scanTextLines st [] = st"
| "scanTextLines st (line # rest) =
     scanTextLines
       (lineStep line (case rest of [] \<Rightarrow> None | nx # ys \<Rightarrow> Some (normalizeDiacritics (tl_text nx))) st)
       rest"

fun emitTokens :: "QState \<Rightarrow> string list \<Rightarrow> int list \<Rightarrow> string list" where
  \<comment> \<open>the final loop over \<open>mainOrder\<close>, left when 150 tokens are reached\<close>
  "emitTokens st tokens [] = tokens"
| "emitTokens st tokens (n # ns) =
     (let subs = subsOf st n;
          tokens1 = (if subs \<noteq> [] then tokens @ map (\<lambda>L. String n @ L) subs
                     else tokens @ [String n])
      in if length tokens1 \<ge> 150 then tokens1 else emitTokens st tokens1 ns)"

definition questionOf :: "QState \<Rightarrow> string \<Rightarrow> Question" where
  "questionOf st token =
     \<lparr> q_id = ''q-'' @ token, q_number = token,
       q_points = (case map_of (pointsByToken st) token of None \<Rightarrow> 0 | Some v \<Rightarrow> v),
       q_page = map_of (pageByToken st) token, q_confidence = None \<rparr>"

definition extractQuestionsFromLines :: "TextLine list \<Rightarrow> Question list" where
  "extractQuestionsFromLines lines =
     (let st = scanTextLines emptyQ lines
      in map (questionOf st) (emitTokens st [] (mainOrder st)))"

subsection \<open>The flat-text extractor\<close>

definition uprefix :: rx where
  \<comment> \<open>\<open>(?:\b(?:uppg(?:ift)?|problem|fraga|question|q)\s*)?\<close>\<close>
  "uprefix = Opt (cats [WordB, uprefixWords, Star ws])"

definition combinedRe2 :: rx where
  \<comment> \<open>\<open>uprefix([1-9]\d?)\s*([a-zA-Z])\s*[\)\.:]\<close>, flags gi\<close>
  "combinedRe2 = cats [uprefix, Grp 1 (Cat (Cls [(CHR ''1'', CHR ''9'')]) (Opt dig)), Star ws,
     Grp 2 letter, Star ws, punct]"

definition alnum :: ranges where
  "alnum = [(CHR ''A'', CHR ''Z''), (CHR ''a'', CHR ''z''), (CHR ''0'', CHR ''9'')]"

definition mainGlobalRe :: rx where
  \<comment> \<open>\<open>(?:^|[^A-Za-z0-9])uprefix([1-9]\d?)(?=\s|[\)\.:])\<close>, flags gi\<close>
  "mainGlobalRe = cats [Alt Bol (NCls alnum), uprefix,
     Grp 1 (Cat (Cls [(CHR ''1'', CHR ''9'')]) (Opt dig)), LookA (Alt ws punct)]"

definition letterAnyRe :: rx where
  \<comment> \<open>\<open>(?:^|[^a-zA-Z0-9])(?:deluppgift\s*)?\(?([a-zA-Z])\)?\s*[\)\.:]\<close>, flag g\<close>
  "letterAnyRe = cats [Alt Bol (NCls alnum), Opt (Cat (lit ''deluppgift'') (Star ws)),
     Opt (Chr CHR ''(''), Grp 1 letter, Opt (Chr CHR '')''), Star ws, punct]"

fun combinedLoop2 :: "string \<Rightarrow> QState \<Rightarrow> (nat \<times> string \<times> caps) list \<Rightarrow> QState" where
  \<comment> \<open>the loop over the combined tokens, left when 80 main numbers are known\<close>
  "combinedLoop2 t st [] = st"
| "combinedLoop2 t st (mt # mts) =
     (case mt of (idx, m0, c) \<Rightarrow>
        (case parseInt (capd c 1) of
           None \<Rightarrow> combinedLoop2 t st mts
         | Some n \<Rightarrow>
             (let st1 = combinedStep t None st mt
              in if length (mainOrder st1) \<ge> 80 then st1 else combinedLoop2 t st1 mts)))"

definition lineStep2 :: "string \<Rightarrow> string option \<Rightarrow> QState \<Rightarrow> QState" where
  \<comment> \<open>one turn of the loop over the trimmed lines of the text; \<open>nxt\<close> is the next line\<close>
  "lineStep2 line nxt st =
     (let nextPts = (case nxt of None \<Rightarrow> None | Some nl \<Rightarrow> parsePts nl);
          nextTxt = (case nxt of None \<Rightarrow> [] | Some nl \<Rightarrow> nl);
          mm = (case rx_match True mainLineRe line of
                  None \<Rightarrow> None
                | Some (i, m0, rest, c) \<Rightarrow>
                    (case parseInt (capd c 1) of None \<Rightarrow> None | Some n \<Rightarrow> Some (n, m0)))
      in case mm of
           Some (n, m0) \<Rightarrow>
             (let st2 = (ensureMain n st) \<lparr> currentMain := Some n \<rparr>;
                  rem = drop (length m0) line;
                  pts = (case parsePts rem of Some v \<Rightarrow> Some v | None \<Rightarrow> nextPts);
                  st3 = (case pts of
                           None \<Rightarrow> st2
                         | Some v \<Rightarrow> if subsOf st2 n = [] then setPoints (String n) v st2 else st2);
                  nearby = rem @ '' '' @ nextTxt
              in listStep n None nearby (eachStep n None nearby st3))
         | None \<Rightarrow>
             (case (rx_match False letterLineRe line, currentMain st) of
                (Some (i, m0, rest, c), Some cm) \<Rightarrow>
                  (let L = toLowerCase (capd c 1);
                       st2 = addLetter cm L st;
                       rem = drop (length m0) line;
                       pts = (case parsePts rem of Some v \<Rightarrow> Some v | None \<Rightarrow> nextPts)
                   in (case pts of None \<Rightarrow> st2 | Some v \<Rightarrow> setPoints (String cm @ L) v st2))
              | _ \<Rightarrow> st))"

fun scanTextLines2 :: "QState \<Rightarrow> string list \<Rightarrow> QState" where
  "scanTextLines2 st [] = st"
| "scanTextLines2 st (line # rest) =
     scanTextLines2 (lineStep2 line (case rest of [] \<Rightarrow> None | nx # ys \<Rightarrow> Some nx) st) rest"

definition mainHits :: "string \<Rightarrow> (int \<times> nat) list" where
  "mainHits normalized =
     List.map_filter (\<lambda>(idx, m0, c). map_option (\<lambda>n. (n, idx)) (parseInt (capd c 1)))
       (rx_all True mainGlobalRe 0 None normalized)"

definition attachedMain :: "(int \<times> nat) list \<Rightarrow> nat \<Rightarrow> int option" where
  \<comment> \<open>the last main hit that does not lie after \<open>pos\<close>\<close>
  "attachedMain hits pos =
     (case filter (\<lambda>(n, idx). idx \<le> pos) (rev hits) of [] \<Rightarrow> None | (n, idx) # hs \<Rightarrow> Some n)"

definition letterHit :: "string \<Rightarrow> (int \<times> nat) list \<Rightarrow> QState \<Rightarrow> nat \<times> string \<times> caps \<Rightarrow> QState" where
  "letterHit normalized hits st mt =
     (case mt of (idx, m0, c) \<Rightarrow>
        (case attachedMain hits idx of
           None \<Rightarrow> st
         | Some a \<Rightarrow>
             (let L = toLowerCase (capd c 1);
                  st1 = addLetter a L st
              in (case nearPts normalized idx (idx + length m0) of
                    None \<Rightarrow> st1
                  | Some v \<Rightarrow> setPoints (String a @ L) v st1))))"

definition extractQuestionsFromText2 :: "string \<Rightarrow> Question list" where
  "extractQuestionsFromText2 text =
     (let normalized = trim (collapse_ws (normalizeDiacritics text));
          st1 = combinedLoop2 normalized emptyQ (rx_all True combinedRe2 0 None normalized);
          st2 = scanTextLines2 st1 (map trim (splitLines text));
          st3 = foldl (letterHit normalized (mainHits normalized)) st2
                  (rx_all False letterAnyRe 0 None normalized)
      in map (questionOf st3) (emitTokens st3 [] (mainOrder st3)))"

section \<open>Header and footer suppression\<close>

fun addByPage :: "TextLine \<Rightarrow> (int \<times> TextLine list) list \<Rightarrow> (int \<times> TextLine list) list" where
  \<comment> \<open>\<open>byPage.set(ln.page, (byPage.get(ln.page) || []).concat(ln))\<close>, in insertion order\<close>
  "addByPage line [] = [(tl_page line, [line])]"
| "addByPage line ((p, arr) # m) =
     (if p = tl_page line then (p, arr @ [line]) # m else (p, arr) # addByPage line m)"

definition groupByPage :: "TextLine list \<Rightarrow> (int \<times> TextLine list) list" where
  "groupByPage lines = foldl (\<lambda>m line. addByPage line m) [] lines"

definition topTexts :: "(int \<times> TextLine list) list \<Rightarrow> string list" where
  \<comment> \<open>the texts counted in \<open>topCount\<close>: the first three lines of every page\<close>
  "topTexts byPage = concat (map (\<lambda>(p, arr). map tl_text (take 3 arr)) byPage)"

definition bottomTexts :: "(int \<times> TextLine list) list \<Rightarrow> string list" where
  \<comment> \<open>the texts counted in \<open>bottomCount\<close>: the last three lines of every page\<close>
  "bottomTexts byPage = concat (map (\<lambda>(p, arr). map tl_text (drop (length arr - 3) arr)) byPage)"

definition hfThreshold :: "nat \<Rightarrow> nat" where
  \<comment> \<open>\<open>Math.max(2, Math.floor(0.6 * Math.max(1, totalPages)))\<close>; the exact quotient
      is used for the floating-point product\<close>
  "hfThreshold totalPages = max 2 ((6 * max 1 totalPages) div 10)"

fun keptFrom :: "nat \<Rightarrow> nat \<Rightarrow> (string \<Rightarrow> bool) \<Rightarrow> (string \<Rightarrow> bool) \<Rightarrow> TextLine list \<Rightarrow> TextLine list" where
  \<comment> \<open>the lines of one page, from index \<open>i\<close> on, that are not skipped; \<open>n\<close> is the number
      of lines of the page\<close>
  "keptFrom i n topCommon botCommon [] = []"
| "keptFrom i n topCommon botCommon (line # rest) =
     (let isTop = (i < 3 \<and> topCommon (tl_text line));
          isBot = (n \<le> i + 3 \<and> botCommon (tl_text line))
      in if isTop \<or> isBot then keptFrom (Suc i) n topCommon botCommon rest
         else line # keptFrom (Suc i) n topCommon botCommon rest)"

definition filterHeaderFooterLines :: "TextLine list \<Rightarrow> nat \<Rightarrow> TextLine list" where
  "filterHeaderFooterLines lines totalPages =
     (let byPage = groupByPage lines;
          thr = hfThreshold totalPages;
          topCommon = (\<lambda>k. count_list (topTexts byPage) k \<ge> thr);
          botCommon = (\<lambda>k. count_list (bottomTexts byPage) k \<ge> thr);
          out = concat (map (\<lambda>(p, arr). keptFrom 0 (length arr) topCommon botCommon arr) byPage)
      in js_sort (\<lambda>a b. of_int (tl_page a - tl_page b)) out)"

text \<open>
  The body of the source function stands in a \<open>try\<close> whose handler returns the lines
  unfiltered; nothing in the body raises.
\<close>

section \<open>Text repair and course codes\<close>

definition misencodings :: "(string \<times> string) list" where
  \<comment> \<open>the entries of the replacement table whose key is a Latin-1 string, in the order of
      the table\<close>
  "misencodings =
     [([CHR 0xC3, CHR 0xA5], [CHR 0xE5]), ([CHR 0xC3, CHR 0xA4], [CHR 0xE4]),
      ([CHR 0xC3, CHR 0xB6], [CHR 0xF6]), ([CHR 0xC2, CHR '' ''], []),
      ([CHR 0xC2, CHR 0xB7], [CHR 0xB7]), ([CHR 0xC2, CHR 0xA9], [CHR 0xA9]),
      ([CHR 0xC2, CHR 0xAE], [CHR 0xAE]), ([CHR 0xC2, CHR 0xB0], [CHR 0xB0])]"

definition detached :: "char \<Rightarrow> ranges \<Rightarrow> rx" where
  \<comment> \<open>a detached diacritic, white space and a base letter\<close>
  "detached d base = cats [Chr d, Star ws, Grp 1 (Cls base)]"

definition repairCommonMisencoding :: "string \<Rightarrow> string" where
  "repairCommonMisencoding input =
     (let s1 = foldl (\<lambda>s (bad, good). rx_replace False (lit bad) good None s) input misencodings;
          s2 = rx_replace_fn False (detached (CHR 0xA8) [Ch CHR ''a'', Ch CHR ''A''])
                 (\<lambda>c. if capd c 1 = ''A'' then [CHR 0xC4] else [CHR 0xE4]) None s1;
          s3 = rx_replace_fn False (detached (CHR 0xA8) [Ch CHR ''o'', Ch CHR ''O''])
                 (\<lambda>c. if capd c 1 = ''O'' then [CHR 0xD6] else [CHR 0xF6]) None s2;
          s4 = rx_replace_fn False (detached (CHR 0xB0) [Ch CHR ''a'', Ch CHR ''A''])
                 (\<lambda>c. if capd c 1 = ''A'' then [CHR 0xC5] else [CHR 0xE5]) None s3
      in collapse_blanks s4)"

definition toUpperCase :: "string \<Rightarrow> string" where
  \<comment> \<open>the sharp s becomes SS; the upper-case forms of U+00B5 and U+00FF lie outside Latin-1,
      and the two characters are left as they are\<close>
  "toUpperCase s = concat (map (\<lambda>c. if c = CHR 0xDF then ''SS'' else [to_upper c]) s)"

definition upperAZ :: rx where
  "upperAZ = Cls [(CHR ''A'', CHR ''Z'')]"

definition genericCode :: "nat \<Rightarrow> nat \<Rightarrow> ranges \<Rightarrow> rx" where
  \<comment> \<open>\<open>\b([A-Z]{k})[sep]?(\d{d})\b\<close>\<close>
  "genericCode k d sep = cats [WordB, Grp 1 (Times k upperAZ), Opt (Cls sep), Grp 2 (Times d dig), WordB]"

definition fileSep :: ranges where
  \<comment> \<open>\<open>[\s\-_.]\<close>\<close>
  "fileSep = [(CHR 0x09, CHR 0x0D), Ch CHR '' '', Ch (CHR 0xA0), Ch CHR ''-'', Ch CHR ''_'', Ch CHR ''.'']"

definition textSep :: ranges where
  \<comment> \<open>\<open>[ \-\._]\<close>\<close>
  "textSep = [Ch CHR '' '', Ch CHR ''-'', Ch CHR ''.'', Ch CHR ''_'']"

fun firstCode :: "rx list \<Rightarrow> string \<Rightarrow> string option" where
  "firstCode [] upper = None"
| "firstCode (re # res) upper =
     (case rx_match False re upper of
        None \<Rightarrow> firstCode res upper
      | Some (i, m0, rest, c) \<Rightarrow> Some (capd c 1 @ capd c 2))"

definition detectCourseCodeFromFilename :: "string \<Rightarrow> string option" where
  "detectCourseCodeFromFilename name =
     firstCode [genericCode 2 4 fileSep, genericCode 3 3 fileSep, genericCode 4 2 fileSep]
       (toUpperCase name)"

definition codeLabel :: rx where
  \<comment> \<open>\<open>(KURSKOD|COURSE\s*CODE|KURS\s*KOD)[^A-Z0-9]{0,10}\<close>\<close>
  "codeLabel = cats [Grp 1 (alts [lit ''KURSKOD'', cats [lit ''COURSE'', Star ws, lit ''CODE''],
                                  cats [lit ''KURS'', Star ws, lit ''KOD'']]),
     Rep 0 (Some 10) (NCls [(CHR ''A'', CHR ''Z''), (CHR ''0'', CHR ''9'')])]"

definition labelledCodes :: "rx list" where
  \<comment> \<open>\<open>label([A-Z]{2,4})[ \-\._]?(\d{2,4})\<close> and \<open>label([A-Z]{2,4}\d{2,4})\<close>, flag g\<close>
  "labelledCodes =
     [cats [codeLabel, Grp 2 (Rep 2 (Some 4) upperAZ), Opt (Cls textSep), Grp 3 (Rep 2 (Some 4) dig)],
      cats [codeLabel, Grp 2 (Cat (Rep 2 (Some 4) upperAZ) (Rep 2 (Some 4) dig))]]"

fun bump :: "string \<Rightarrow> nat \<Rightarrow> (string \<times> nat) list \<Rightarrow> (string \<times> nat) list" where
  \<comment> \<open>\<open>scores.set(code, (scores.get(code) || 0) + by)\<close>, in insertion order\<close>
  "bump code by [] = [(code, by)]"
| "bump code by ((k, v) # m) = (if k = code then (k, v + by) # m else (k, v) # bump code by m)"

fun bestCode :: "string option \<Rightarrow> int \<Rightarrow> (string \<times> nat) list \<Rightarrow> string option" where
  "bestCode best bestScore [] = best"
| "bestCode best bestScore ((code, sc) # m) =
     (if int sc > bestScore then bestCode (Some code) (int sc) m else bestCode best bestScore m)"

definition detectCourseCodeFromText :: "string \<Rightarrow> string option" where
  "detectCourseCodeFromText text =
     (let upper = toUpperCase text;
          s1 = foldl (\<lambda>sc re. foldl (\<lambda>sc (i, m0, c).
                        bump (case cap c 3 of Some d \<Rightarrow> (if d \<noteq> [] then capd c 2 @ d else capd c 2)
                                            | None \<Rightarrow> capd c 2) 5 sc)
                      sc (rx_all False re 0 None upper))
                 [] labelledCodes;
          s2 = foldl (\<lambda>sc re. foldl (\<lambda>sc (i, m0, c). bump (capd c 1 @ capd c 2) 1 sc)
                      sc (rx_all False re 0 None upper))
                 s1 [genericCode 2 4 textSep, genericCode 3 3 textSep, genericCode 4 2 textSep]
      in bestCode None (- 1) s2)"

section \<open>The course name detector\<close>

text \<open>
  The character classes of the detector hold the UTF-8 bytes of Swedish letters read as
  another encoding. Of these characters only U+00A4, U+00B6 and U+00E2 are Latin-1
  characters; the others cannot occur in the strings of this model and are left out. Two
  patterns are built from template literals, in which \<open>\-\<close> and \<open>\s\<close> stand for the
  characters \<open>-\<close> and \<open>s\<close>; there the hyphen makes a range of its neighbours.
\<close>

definition joinWith :: "string \<Rightarrow> string list \<Rightarrow> string" where
  \<comment> \<open>\<open>xs.join(sep)\<close>\<close>
  "joinWith sep xs = (case xs of [] \<Rightarrow> [] | y # ys \<Rightarrow> foldl (\<lambda>acc s. acc @ sep @ s) y ys)"

definition countIn :: "ranges \<Rightarrow> string \<Rightarrow> nat" where
  \<comment> \<open>\<open>(s.match(/[...]/g) || []).length\<close> for a character class\<close>
  "countIn cls s = length (filter (\<lambda>c. in_ranges c cls) s)"

definition nameLetters :: ranges where
  "nameLetters = [(CHR ''A'', CHR ''Z''), (CHR ''a'', CHR ''z''), Ch (CHR 0xA4), Ch (CHR 0xB6)]"

definition nameChars :: ranges where
  \<comment> \<open>the class of a name in the two pattern literals\<close>
  "nameChars = [(CHR ''A'', CHR ''Z''), (CHR ''a'', CHR ''z''), Ch (CHR 0xA4), Ch (CHR 0xB6),
     (CHR ''0'', CHR ''9''), Ch CHR '' '', Ch CHR '','', Ch CHR ''.'', Ch (CHR 0x27), Ch CHR ''&'',
     Ch CHR ''/'', Ch CHR ''-'', Ch (CHR 0xE2)]"

definition nameCharsT :: ranges where
  \<comment> \<open>the same class in the template literal, where \<open>/-\<close>U+00E2 is a range\<close>
  "nameCharsT = [(CHR ''A'', CHR ''Z''), (CHR ''a'', CHR ''z''), Ch (CHR 0xA4), Ch (CHR 0xB6),
     (CHR ''0'', CHR ''9''), Ch CHR '' '', Ch CHR '','', Ch CHR ''.'', Ch (CHR 0x27), Ch CHR ''&'',
     (CHR ''/'', CHR 0xE2)]"

definition reMeta :: rx where
  \<comment> \<open>flag i\<close>
  "reMeta = alts [lit ''sektion'', lit ''section'', lit ''uppgift'', lit ''problem'', lit ''fraga'',
     lit ''question'', cats [lit ''max'', Star ws, lit ''po'', Opt (Chr CHR ''a''), lit ''ng''],
     cats [lit ''word'', Star ws, lit ''limit''], lit ''sida'', lit ''examinator'', lit ''jour'',
     cats [lit ''hj'', Cls [Ch (CHR 0xA4), Ch CHR ''a''], lit ''lpmedel''],
     cats [lit ''link'', Cls [Ch (CHR 0xB6), Ch CHR ''o''], lit ''pings''],
     lit ''institutionen'', lit ''wiseflow'', lit ''datum'', lit ''date'']"

definition reStartsDigit :: rx where
  \<comment> \<open>\<open>^\s*\d\<close>\<close>
  "reStartsDigit = cats [Bol, Star ws, dig]"

definition reDate :: rx where
  \<comment> \<open>\<open>\b\d{4}-\d{2}-\d{2}\b|\b\d{1,2}[\.\/\-]\d{1,2}[\.\/\-]\d{2,4}\b\<close>\<close>
  "reDate = Alt (cats [WordB, Times 4 dig, Chr CHR ''-'', Times 2 dig, Chr CHR ''-'', Times 2 dig, WordB])
     (cats [WordB, Rep 1 (Some 2) dig, dateSep, Rep 1 (Some 2) dig, dateSep, Rep 2 (Some 4) dig, WordB])"

definition reTime :: rx where
  \<comment> \<open>\<open>\b\d{1,2}[:\.]\d{2}\b\<close>\<close>
  "reTime = cats [WordB, Rep 1 (Some 2) dig, Cls [Ch CHR '':'', Ch CHR ''.''], Times 2 dig, WordB]"

definition reRange :: rx where
  \<comment> \<open>\<open>\b\d+\s*[...]\s*\d+\b\<close>, the class being the hyphen and U+00E2\<close>
  "reRange = cats [WordB, Plus dig, Star ws, Cls [Ch CHR ''-'', Ch (CHR 0xE2)], Star ws, Plus dig, WordB]"

definition reMultiNums :: rx where
  \<comment> \<open>\<open>(?:\b\d+(?:[\.,]\d+)?\b[\s,;:]{1,3}){3,}\d+\<close>\<close>
  "reMultiNums = cats [
     Rep 3 None (cats [WordB, Plus dig, Opt (Cat (Cls [Ch CHR ''.'', Ch CHR '','']) (Plus dig)), WordB,
       Rep 1 (Some 3) (Cls [(CHR 0x09, CHR 0x0D), Ch CHR '' '', Ch (CHR 0xA0), Ch CHR '','',
                             Ch CHR '';'', Ch CHR '':''])]),
     Plus dig]"

definition nameHeadingWord :: rx where
  \<comment> \<open>the pattern \<open>headingWord\<close> of the name detector:
      \<open>(uppgift|problem|fraga|question|section|sektion|q)\s*\d+\<close>, flag i\<close>
  "nameHeadingWord = cats [alts [lit ''uppgift'', lit ''problem'', lit ''fraga'', lit ''question'',
     lit ''section'', lit ''sektion'', Chr CHR ''q''], Star ws, Plus dig]"

definition excludedName :: "string \<Rightarrow> bool" where
  "excludedName n =
     (rx_test True reMeta n \<or> rx_test False reStartsDigit n \<or> rx_test False reDate n
      \<or> rx_test False reTime n \<or> rx_test False reRange n \<or> rx_test False reMultiNums n
      \<or> rx_test True nameHeadingWord n)"

definition addCandidate :: "string \<Rightarrow> int \<Rightarrow> (string \<times> int) list \<Rightarrow> (string \<times> int) list" where
  \<comment> \<open>a candidate is its name and its score\<close>
  "addCandidate name delta cands =
     (let n = collapse_ws (trim name)
      in if length n < 3 \<or> length n > 120 then cands
         else if countIn nameLetters n = 0
                 \<or> countIn [(CHR ''0'', CHR ''9'')] n > countIn nameLetters n then cands
         else if excludedName n then cands @ [(n, - 3)]
         else cands @ [(n, delta)])"

fun topBlock :: "nat \<Rightarrow> string list \<Rightarrow> string list \<Rightarrow> string list" where
  \<comment> \<open>the first lines of the text, up to 1500 characters\<close>
  "topBlock chars tops [] = tops"
| "topBlock chars tops (l # ls) =
     (if chars + length l > 1500 \<and> tops \<noteq> [] then tops
      else topBlock (chars + length l + 1) (tops @ [l]) ls)"

definition nameLabel :: rx where
  \<comment> \<open>\<open>(KURSNAMN|COURSE\s*NAME|KURS\s*NAMN)[^A-Za-z0-9]{0,10}(name{3,120})\<close>, flag i\<close>
  "nameLabel = cats [Grp 1 (alts [lit ''KURSNAMN'', cats [lit ''COURSE'', Star ws, lit ''NAME''],
                                  cats [lit ''KURS'', Star ws, lit ''NAMN'']]),
     Rep 0 (Some 10) (NCls alnum), Grp 2 (Rep 3 (Some 120) (Cls nameChars))]"

definition tent :: rx where
  \<comment> \<open>\<open>(?:TENTAMEN|EXAMINATION)\s+i\s+(name{3,120})\<close>, flag i\<close>
  "tent = cats [Alt (lit ''TENTAMEN'') (lit ''EXAMINATION''), Plus ws, Chr CHR ''i'', Plus ws,
     Grp 1 (Rep 3 (Some 120) (Cls nameChars))]"

definition codeSep :: "string \<Rightarrow> rx" where
  \<comment> \<open>the escaped course code, \<open>\s*\<close>, a hyphen, U+00E2 or a colon, \<open>\s*\<close> and a name\<close>
  "codeSep cc = cats [lit cc, Star ws, Cls [Ch CHR ''-'', Ch (CHR 0xE2), Ch CHR '':''], Star ws,
     Grp 1 (Rep 3 (Some 120) (Cls nameCharsT))]"

definition codeInFileName :: "string \<Rightarrow> rx" where
  \<comment> \<open>the escaped course code, one or more characters of the range from \<open>s\<close> to U+00E2,
      colons or underscores, and \<open>(.{3,120})\<close>\<close>
  "codeInFileName cc = cats [lit cc, Plus (Cls [(CHR ''s'', CHR 0xE2), Ch CHR '':'', Ch CHR ''_'']),
     Grp 1 (Rep 3 (Some 120) Dot)]"

definition dropPdfSuffix :: "string \<Rightarrow> string" where
  \<comment> \<open>\<open>fileName.replace(/\.[Pp][Dd][Ff]$/, '')\<close>\<close>
  "dropPdfSuffix name =
     (case rx_match False (cats [Chr CHR ''.'', Cls [Ch CHR ''P'', Ch CHR ''p''],
             Cls [Ch CHR ''D'', Ch CHR ''d''], Cls [Ch CHR ''F'', Ch CHR ''f''], Eol]) name of
        None \<Rightarrow> name
      | Some (i, m0, rest, c) \<Rightarrow> take i name)"

definition belowCode :: "string \<Rightarrow> string list \<Rightarrow> string option" where
  \<comment> \<open>the first non-empty line of the four below the first line, of the first 40, that
      holds the course code\<close>
  "belowCode cc tops =
     (case List.find (\<lambda>i. rx_test False (lit cc) (tops ! i)) [0 ..< min (length tops) 40] of
        None \<Rightarrow> None
      | Some i \<Rightarrow>
          List.find (\<lambda>s. s \<noteq> []) (take (min (length tops) (i + 5) - (i + 1)) (drop (i + 1) tops)))"

definition looksTitleLike :: "string \<Rightarrow> bool" where
  "looksTitleLike s =
     (if length s < 6 then False
      else (case List.find (\<lambda>c. in_ranges c nameLetters) s of
              None \<Rightarrow> False
            | Some firstAlpha \<Rightarrow>
                toUpperCase [firstAlpha] = [firstAlpha]
                \<or> countIn [(CHR ''A'', CHR ''Z'')] s \<ge> 2))"

definition byScore :: "string \<times> int \<Rightarrow> string \<times> int \<Rightarrow> rat" where
  \<comment> \<open>score descending, then number of letters descending\<close>
  "byScore a b =
     (if snd b \<noteq> snd a then of_int (snd b - snd a)
      else of_int (int (countIn nameLetters (fst b)) - int (countIn nameLetters (fst a))))"

definition detectCourseName :: "string \<Rightarrow> string \<Rightarrow> string option \<Rightarrow> string option" where
  "detectCourseName text fileName courseCode =
     (let norm = normalizeTextKeepLines text;
          lines = filter (\<lambda>s. s \<noteq> []) (map trim (splitLines norm));
          tops = topBlock 0 [] (take 120 lines);
          topJoined = joinWith [CHR 0x0A] tops;
          code = (case courseCode of None \<Rightarrow> None | Some cc \<Rightarrow> if cc = [] then None else Some cc);
          c1 = (case rx_match True nameLabel topJoined of
                  None \<Rightarrow> []
                | Some (i, m0, rest, c) \<Rightarrow> addCandidate (capd c 2) 3 []);
          c2 = (case rx_match True tent topJoined of
                  None \<Rightarrow> c1
                | Some (i, m0, rest, c) \<Rightarrow> addCandidate (capd c 1) 3 c1);
          c3 = (case code of
                  None \<Rightarrow> c2
                | Some cc \<Rightarrow>
                    (case rx_match False (codeSep cc) topJoined of
                       None \<Rightarrow> c2
                     | Some (i, m0, rest, c) \<Rightarrow> addCandidate (capd c 1) 2 c2));
          c4 = (case code of
                  None \<Rightarrow> c3
                | Some cc \<Rightarrow>
                    if fileName = [] then c3
                    else (case rx_match False (codeInFileName cc) (dropPdfSuffix fileName) of
                            None \<Rightarrow> c3
                          | Some (i, m0, rest, c) \<Rightarrow> addCandidate (capd c 1) 2 c3));
          c5 = (case code of
                  None \<Rightarrow> c4
                | Some cc \<Rightarrow>
                    (case belowCode cc tops of None \<Rightarrow> c4 | Some s \<Rightarrow> addCandidate s 2 c4));
          c6 = foldl (\<lambda>cs (i, s). if s \<noteq> [] \<and> looksTitleLike s
                                    then addCandidate s (if i < (20 :: nat) then 2 else 1) cs
                                    else cs)
                 c5 (zip [0 ..< 60] tops)
      in (case List.find (\<lambda>c. snd c > 0) (js_sort byScore c6) of
            None \<Rightarrow> None
          | Some c \<Rightarrow> Some (trim (fst c))))"

section \<open>parsePdf\<close>

text \<open>
  \<open>parsePdf\<close> reads the PDF through pdf.js and the page images through Tesseract. What
  these collaborators answer is the environment of the model: whether the document opens
  and with how many pages, the text items of each page at each of the two places that read
  them, whether Tesseract and a DOM are there, whether the worker starts, and what
  happens to each page in the OCR loop. A rejected promise or a raised exception is an
  \<open>Inl\<close>.
\<close>

datatype Pass = TextPass | LayoutPass

datatype OcrPage =
    OcrThrows        \<comment> \<open>\<open>getPage\<close>, \<open>getViewport\<close> or \<open>render\<close> raises\<close>
  | OcrNoContext     \<comment> \<open>the canvas gives no 2d context\<close>
  | OcrText string   \<comment> \<open>the recognised text, empty when recognition fails\<close>

record PdfEnv =
  env_fileName :: string
  env_deepOcr :: bool
  env_isProd :: bool
  env_numPages :: "error + nat"
  env_textContent :: "Pass \<Rightarrow> nat \<Rightarrow> error + PdfjsTextItem list"
  env_tesseract :: bool
  env_document :: bool
  env_worker :: "bool option"
  env_ocr :: "nat \<Rightarrow> OcrPage"

text \<open>
  \<open>env_worker\<close> is \<open>None\<close> when Tesseract has no \<open>createWorker\<close>, and otherwise tells
  whether the worker was created and initialised without an exception.
\<close>

record Exam =
  ex_fileName :: string
  ex_examDate :: "(int \<times> int \<times> int) option"
  ex_courseName :: "string option"
  ex_courseCode :: "string option"
  ex_year :: "int option"
  ex_totalPoints :: "int option"
  ex_questions :: "Question list"
  ex_extractedText :: string
  ex_tags :: "string list option"
  ex_courseNameFromText :: "bool option"

text \<open>
  A field that the returned object does not have is \<open>None\<close>. \<open>ex_examDate\<close> holds the
  three arguments of the \<open>Date\<close> constructor, and \<open>ex_courseNameFromText\<close> the entry
  \<open>__debug.course.courseNameFromText\<close>, which is only there outside production.

  The model also lists the stages that a run enters, in the order in which it enters them.
\<close>

datatype Call =
    CallLines nat       \<comment> \<open>the line-based extractor, with the number of its questions\<close>
  | CallText2 nat       \<comment> \<open>the flat-text extractor on the text layer\<close>
  | CallLayout          \<comment> \<open>the \<open>try\<close> block of the layout-aware detector\<close>
  | CallLoadTesseract
  | CallRecognize nat   \<comment> \<open>recognition of a page image\<close>
  | CallOcrDetect nat   \<comment> \<open>the flat-text extractor on the text with the OCR text\<close>
  | CallFinalText2      \<comment> \<open>the flat-text extractor in the final assignment of \<open>questions\<close>\<close>

record ParseState =
  ocrParts :: "string list"
  textForParsing :: string
  questionsDetected :: "Question list"
  calls :: "Call list"

definition errorText :: "error \<Rightarrow> string" where
  \<comment> \<open>\<open>String(error)\<close>\<close>
  "errorText e = (case e of ReferenceError \<Rightarrow> ''ReferenceError'' | Thrown msg \<Rightarrow> msg)"

fun pageBuf :: "string \<Rightarrow> PdfjsTextItem list \<Rightarrow> string" where
  "pageBuf buf [] = buf"
| "pageBuf buf (it # its) =
     (if it_str it = [] then pageBuf buf its
      else (let b1 = (if buf \<noteq> [] then buf @ '' '' else buf) @ it_str it
            in pageBuf (if it_hasEOL it then b1 @ [CHR 0x0A] else b1) its))"

definition pageText :: "PdfjsTextItem list \<Rightarrow> string" where
  "pageText items =
     (let buf = pageBuf [] items;
          rawPage = (if buf \<noteq> [] then buf else joinWith '' '' (map it_str items))
      in collapse_blanks (repairCommonMisencoding rawPage))"

fun readPages ::
  "(nat \<Rightarrow> error + PdfjsTextItem list) \<Rightarrow> nat list \<Rightarrow> string \<Rightarrow> TextLine list
     \<Rightarrow> error + (string \<times> TextLine list)" where
  \<comment> \<open>the loop over the pages; a page without items is passed over\<close>
  "readPages get [] fullText structuredLines = Inr (fullText, structuredLines)"
| "readPages get (i # is) fullText structuredLines =
     (case get i of
        Inl e \<Rightarrow> Inl e
      | Inr items \<Rightarrow>
          if items = [] then readPages get is fullText structuredLines
          else readPages get is
                 ((if fullText \<noteq> [] then fullText @ [CHR 0x0A] else fullText) @ pageText items)
                 (structuredLines @ buildLinesFromItems_parsePdf items (int i)))"

fun readLayout ::
  "(nat \<Rightarrow> error + PdfjsTextItem list) \<Rightarrow> nat list \<Rightarrow> PageInput list \<Rightarrow> error + PageInput list" where
  "readLayout get [] detectorPages = Inr detectorPages"
| "readLayout get (i # is) detectorPages =
     (case get i of
        Inl e \<Rightarrow> Inl e
      | Inr items \<Rightarrow>
          readLayout get is
            (detectorPages @ [\<lparr> pg_page = int i, pg_items = items, pg_height = None \<rparr>]))"

definition questionOfToken :: "TokenMeta \<Rightarrow> Question" where
  \<comment> \<open>the confidence is \<open>Math.round(Math.max(0, Math.min(1, c)) * 100)\<close>\<close>
  "questionOfToken tk =
     \<lparr> q_id = ''q-'' @ tk_token tk, q_number = tk_token tk, q_points = 0,
       q_page = Some (tk_page tk),
       q_confidence = Some \<lfloor>clamp01 (tk_confidence tk) * 100 + 1 / 2\<rfloor> \<rparr>"

definition layoutStage ::
  "(PageInput list \<Rightarrow> error + TokenMeta list) \<Rightarrow> (nat \<Rightarrow> error + PdfjsTextItem list) \<Rightarrow> nat
     \<Rightarrow> Question list" where
  \<comment> \<open>the questions of the layout-aware detector; an exception leaves the list empty\<close>
  "layoutStage detect get maxPages =
     (case readLayout get [1 ..< Suc (min maxPages 10)] [] of
        Inl e \<Rightarrow> []
      | Inr detectorPages \<Rightarrow>
          (case detect detectorPages of
             Inl e \<Rightarrow> []
           | Inr tokens \<Rightarrow> map questionOfToken tokens))"

fun ocrLoop ::
  "(nat \<Rightarrow> OcrPage) \<Rightarrow> bool \<Rightarrow> string \<Rightarrow> nat list \<Rightarrow> ParseState \<Rightarrow> bool \<times> ParseState" where
  \<comment> \<open>the loop over the page images; the first component tells whether the loop was left
      without an exception\<close>
  "ocrLoop ocr deep fullText [] st = (True, st)"
| "ocrLoop ocr deep fullText (i # is) st =
     (case ocr i of
        OcrThrows \<Rightarrow> (False, st)
      | OcrNoContext \<Rightarrow> ocrLoop ocr deep fullText is st
      | OcrText textChunk \<Rightarrow>
          (let st1 = st \<lparr> calls := calls st @ [CallRecognize i] \<rparr>
           in if textChunk = [] then ocrLoop ocr deep fullText is st1
              else (let parts = ocrParts st1 @ [textChunk];
                        txt = trim (fullText @ [CHR 0x0A] @ joinWith [CHR 0x0A] parts);
                        st2 = st1 \<lparr> ocrParts := parts, textForParsing := txt \<rparr>
                    in if deep then ocrLoop ocr deep fullText is st2
                       else (let qs = extractQuestionsFromText2 txt;
                                 st3 = st2 \<lparr> questionsDetected := qs,
                                              calls := calls st2 @ [CallOcrDetect (length qs)] \<rparr>
                             in if qs \<noteq> [] then (True, st3)
                                else ocrLoop ocr deep fullText is st3))))"

definition ocrStage :: "PdfEnv \<Rightarrow> nat \<Rightarrow> string \<Rightarrow> ParseState \<Rightarrow> ParseState" where
  "ocrStage env maxPages fullText st =
     (if env_tesseract env \<and> env_document env
      then (if env_worker env = Some False then st
            else (let deep = env_deepOcr env;
                      ocrPages = min maxPages (if deep then 100 else 20);
                      r = ocrLoop (env_ocr env) deep fullText [1 ..< Suc ocrPages] st;
                      st1 = snd r
                  in if fst r \<and> deep
                     then (let qs = extractQuestionsFromText2 (textForParsing st1)
                           in st1 \<lparr> questionsDetected := qs,
                                    calls := calls st1 @ [CallOcrDetect (length qs)] \<rparr>)
                     else st1))
      else st)"

definition detectStages ::
  "(PageInput list \<Rightarrow> error + TokenMeta list) \<Rightarrow> PdfEnv \<Rightarrow> nat \<Rightarrow> string \<Rightarrow> TextLine list
     \<Rightarrow> ParseState" where
  \<comment> \<open>the four stages of question detection, each entered when the one before it found
      nothing\<close>
  "detectStages detect env maxPages fullText structuredLines =
     (let structuredLinesFiltered = filterHeaderFooterLines structuredLines maxPages;
          q1 = extractQuestionsFromLines structuredLinesFiltered;
          st1 = \<lparr> ocrParts = [], textForParsing = fullText, questionsDetected = q1,
                  calls = [CallLines (length q1)] \<rparr>;
          st2 = (if questionsDetected st1 = []
                 then (let q2 = extractQuestionsFromText2 fullText
                       in st1 \<lparr> questionsDetected := q2, calls := calls st1 @ [CallText2 (length q2)] \<rparr>)
                 else st1);
          st3 = (if questionsDetected st2 = []
                 then st2 \<lparr> questionsDetected :=
                              layoutStage detect (env_textContent env LayoutPass) maxPages,
                            calls := calls st2 @ [CallLayout] \<rparr>
                 else st2)
      in if questionsDetected st3 = []
         then ocrStage env maxPages fullText (st3 \<lparr> calls := calls st3 @ [CallLoadTesseract] \<rparr>)
         else st3)"

definition truthy :: "string option \<Rightarrow> bool" where
  "truthy s = (case s of None \<Rightarrow> False | Some v \<Rightarrow> v \<noteq> [])"

definition reHeadingInline :: rx where
  \<comment> \<open>\<open>(sektion|section|uppgift|problem|fraga|question)\s*\d+\<close>, flag i\<close>
  "reHeadingInline = cats [alts [lit ''sektion'', lit ''section'', lit ''uppgift'', lit ''problem'',
     lit ''fraga'', lit ''question''], Star ws, Plus dig]"

definition edgePunct :: rx where
  \<comment> \<open>\<open>^[\-\u2013\u2014:,.\s]+|[\-\u2013\u2014:,.\s]+$\<close>, flag g\<close>
  "edgePunct =
     (let cls = Cls [Ch CHR ''-'', Ch CHR '':'', Ch CHR '','', Ch CHR ''.'', (CHR 0x09, CHR 0x0D),
                     Ch CHR '' '', Ch (CHR 0xA0)]
      in Alt (Cat Bol (Plus cls)) (Cat (Plus cls) Eol))"

definition cleanCourseName :: "string option \<Rightarrow> string option" where
  \<comment> \<open>the final cleanup of the detected name\<close>
  "cleanCourseName courseName =
     (if truthy courseName
      then (let cleaned = trim (normalizeDiacritics (the courseName));
                isBad = (rx_test True reHeadingInline cleaned \<or> rx_test False reStartsDigit cleaned);
                compact = rx_replace False (Rep 2 None ws) '' '' None
                            (rx_replace False edgePunct [] None cleaned)
            in if isBad then None else Some compact)
      else courseName)"

fun dedupe :: "string list \<Rightarrow> Question list \<Rightarrow> Question list" where
  \<comment> \<open>the first question of every number; \<open>seen\<close> holds the keys met so far\<close>
  "dedupe seen [] = []"
| "dedupe seen (q # qs) =
     (let key = (if q_number q \<noteq> [] then q_number q else q_id q)
      in if key \<in> set seen then dedupe seen qs else q # dedupe (key # seen) qs)"

definition finish ::
  "PdfEnv \<Rightarrow> string option \<Rightarrow> int option \<Rightarrow> (int \<times> int \<times> int) option \<Rightarrow> ParseState
     \<Rightarrow> Exam \<times> Call list" where
  \<comment> \<open>the part of the \<open>try\<close> block after the detection stages\<close>
  "finish env courseCode0 year examDate st =
     (let fileName = env_fileName env;
          txt = textForParsing st;
          courseCode = (if \<not> truthy courseCode0 \<and> txt \<noteq> []
                        then (let detected = detectCourseCodeFromText txt
                              in if truthy detected then detected else courseCode0)
                        else courseCode0);
          courseName = cleanCourseName
                         (if txt \<noteq> [] \<or> fileName \<noteq> [] then detectCourseName txt fileName courseCode
                          else None);
          found = (questionsDetected st \<noteq> []);
          questions = dedupe [] (if found then questionsDetected st
                                 else extractQuestionsFromText2 txt)
      in (\<lparr> ex_fileName = fileName, ex_examDate = examDate,
            ex_courseName = Some (''Ok'' @ [CHR 0xE4] @ ''nt kursnamn''),
            ex_courseCode = courseCode, ex_year = year,
            ex_totalPoints = Some (sum_list (map q_points questions)),
            ex_questions = questions,
            ex_extractedText = take 5000 (collapse_blanks (repairCommonMisencoding txt)),
            ex_tags = Some [],
            ex_courseNameFromText = (if env_isProd env then None else Some (truthy courseName)) \<rparr>,
          calls st @ (if found then [] else [CallFinalText2])))"

definition failed ::
  "PdfEnv \<Rightarrow> string option \<Rightarrow> int option \<Rightarrow> (int \<times> int \<times> int) option \<Rightarrow> error \<Rightarrow> Exam" where
  \<comment> \<open>the object that the \<open>catch\<close> block returns\<close>
  "failed env courseCode year examDate e =
     \<lparr> ex_fileName = env_fileName env, ex_examDate = examDate, ex_courseName = None,
       ex_courseCode = courseCode, ex_year = year, ex_totalPoints = None, ex_questions = [],
       ex_extractedText = ''Failed to extract text: '' @ errorText e, ex_tags = None,
       ex_courseNameFromText = None \<rparr>"

definition yearOf :: "string \<Rightarrow> int option" where
  \<comment> \<open>\<open>fileName.match(/20(\d{2})/)\<close>\<close>
  "yearOf fileName =
     (case rx_match False (cats [lit ''20'', Grp 1 (Times 2 dig)]) fileName of
        None \<Rightarrow> None
      | Some (i, m0, rest, c) \<Rightarrow> parseInt (''20'' @ capd c 1))"

definition dateOf :: "string \<Rightarrow> (int \<times> int \<times> int) option" where
  \<comment> \<open>\<open>fileName.match(/(\d{4})-(\d{2})-(\d{2})/)\<close>\<close>
  "dateOf fileName =
     (case rx_match False (cats [Grp 1 (Times 4 dig), Chr CHR ''-'', Grp 2 (Times 2 dig),
             Chr CHR ''-'', Grp 3 (Times 2 dig)]) fileName of
        None \<Rightarrow> None
      | Some (i, m0, rest, c) \<Rightarrow>
          (case (parseInt (capd c 1), parseInt (capd c 2), parseInt (capd c 3)) of
             (Some y, Some m, Some d) \<Rightarrow> Some (y, m - 1, d)
           | _ \<Rightarrow> None))"

definition parseOpened ::
  "(PageInput list \<Rightarrow> error + TokenMeta list) \<Rightarrow> PdfEnv \<Rightarrow> string option \<Rightarrow> int option
     \<Rightarrow> (int \<times> int \<times> int) option \<Rightarrow> nat \<Rightarrow> Exam \<times> Call list" where
  \<comment> \<open>the \<open>try\<close> block from the loop over the pages on, and the \<open>catch\<close> block\<close>
  "parseOpened detect env courseCode year examDate maxPages =
     (case readPages (env_textContent env TextPass) [1 ..< Suc maxPages] [] [] of
        Inl e \<Rightarrow> (failed env courseCode year examDate e, [])
      | Inr r \<Rightarrow>
          finish env courseCode year examDate (detectStages detect env maxPages (fst r) (snd r)))"

definition parsePdf_calls ::
  "(PageInput list \<Rightarrow> error + TokenMeta list) \<Rightarrow> PdfEnv \<Rightarrow> Exam \<times> Call list" where
  \<comment> \<open>\<open>detect\<close> is the function that \<open>parsePdf\<close> imports as \<open>detectQuestionsFromPages\<close>;
      the course code, the year and the date are read from the file name\<close>
  "parsePdf_calls detect env =
     (case env_numPages env of
        Inl e \<Rightarrow>
          (failed env (detectCourseCodeFromFilename (env_fileName env)) (yearOf (env_fileName env))
             (dateOf (env_fileName env)) e, [])
      | Inr numPages \<Rightarrow>
          parseOpened detect env (detectCourseCodeFromFilename (env_fileName env))
            (yearOf (env_fileName env)) (dateOf (env_fileName env))
            (if numPages = 0 then 1 else numPages))"

definition parsePdf :: "(PageInput list \<Rightarrow> error + TokenMeta list) \<Rightarrow> PdfEnv \<Rightarrow> Exam" where
  "parsePdf detect env = fst (parsePdf_calls detect env)"

definition detector1 :: "PageInput list \<Rightarrow> error + TokenMeta list" where
  \<comment> \<open>the copy of the detector that sorts its tokens, with the default configuration\<close>
  "detector1 pages = Inr (detectQuestionsFromPages pages DEFAULT_CONFIG)"

definition detector2 :: "PageInput list \<Rightarrow> error + TokenMeta list" where
  \<comment> \<open>the copy without the final sort\<close>
  "detector2 pages = detectQuestionsFromPages2 pages DEFAULT_CONFIG"




section \<open>Document order and sample inputs\<close>

definition inDocOrder :: "TokenMeta \<Rightarrow> TokenMeta \<Rightarrow> bool" where
  \<comment> \<open>page ascending, then y descending, then x ascending\<close>
  "inDocOrder a b =
     (tk_page a < tk_page b
      \<or> (tk_page a = tk_page b \<and> (tk_y a > tk_y b \<or> (tk_y a = tk_y b \<and> tk_x a \<le> tk_x b))))"

definition glyph :: "string \<Rightarrow> rat \<Rightarrow> rat \<Rightarrow> PdfjsTextItem" where
  \<comment> \<open>a glyph run with the text \<open>s\<close> at the position \<open>(x, y)\<close>\<close>
  "glyph s x y = \<lparr> it_str = s, it_transform = Some (x, y), it_hasEOL = False \<rparr>"

definition pageOf :: "int \<Rightarrow> PdfjsTextItem list \<Rightarrow> PageInput" where
  \<comment> \<open>a page of height 100\<close>
  "pageOf n items = \<lparr> pg_page = n, pg_items = items, pg_height = Some 100 \<rparr>"

definition textLine :: "int \<Rightarrow> string \<Rightarrow> TextLine" where
  "textLine p s = \<lparr> tl_text = s, tl_page = p \<rparr>"

definition samplePdf :: "string \<Rightarrow> nat \<Rightarrow> (nat \<Rightarrow> PdfjsTextItem list) \<Rightarrow> (nat \<Rightarrow> OcrPage) \<Rightarrow> PdfEnv" where
  \<comment> \<open>a document that opens, whose pages are read without an exception, in a browser
      with Tesseract and a worker, in quick mode\<close>
  "samplePdf name n items ocr =
     \<lparr> env_fileName = name, env_deepOcr = False, env_isProd = False, env_numPages = Inr n,
       env_textContent = (\<lambda>pass i. Inr (items i)), env_tesseract = True, env_document = True,
       env_worker = Some True, env_ocr = ocr \<rparr>"

section \<open>Evaluation\<close>

text \<open>
  The order of characters is the order of their code units; for evaluation it is computed
  from the bits, the most significant bit deciding.
\<close>

fun bits_val :: "bool list \<Rightarrow> nat" where
  "bits_val [] = 0"
| "bits_val (a # as) = of_bool a + 2 * bits_val as"

fun bits_le :: "bool list \<Rightarrow> bool list \<Rightarrow> bool \<Rightarrow> bool" where
  "bits_le (a # as) (b # bs) acc = bits_le as bs (if a = b then acc else b)"
| "bits_le as bs acc = acc"

lemma bits_le_val:
  "length as = length bs \<Longrightarrow>
   bits_le as bs acc = (bits_val as < bits_val bs \<or> (bits_val as = bits_val bs \<and> acc))"
proof (induction as bs arbitrary: acc rule: list_induct2)
  case Nil
  then show ?case by simp
next
  case (Cons a as b bs)
  show ?case
    by (cases a; cases b) (auto simp: Cons.IH)
qed

lemma of_char_bits:
  "(of_char (Char b0 b1 b2 b3 b4 b5 b6 b7) :: nat) = bits_val [b0, b1, b2, b3, b4, b5, b6, b7]"
  by (simp add: of_char_def)

lemma bits_le_True: "length as = length bs \<Longrightarrow> (bits_val as \<le> bits_val bs) = bits_le as bs True"
  using bits_le_val [of as bs True] by auto

lemma bits_le_False: "length as = length bs \<Longrightarrow> (bits_val as < bits_val bs) = bits_le as bs False"
  using bits_le_val [of as bs False] by auto

lemma char_le_code [code]:
  "(Char a0 a1 a2 a3 a4 a5 a6 a7 \<le> Char b0 b1 b2 b3 b4 b5 b6 b7)
     = bits_le [a0, a1, a2, a3, a4, a5, a6, a7] [b0, b1, b2, b3, b4, b5, b6, b7] True"
  unfolding less_eq_char_def of_char_bits by (rule bits_le_True) simp

lemma char_less_code [code]:
  "(Char a0 a1 a2 a3 a4 a5 a6 a7 < Char b0 b1 b2 b3 b4 b5 b6 b7)
     = bits_le [a0, a1, a2, a3, a4, a5, a6, a7] [b0, b1, b2, b3, b4, b5, b6, b7] False"
  unfolding less_char_def of_char_bits by (rule bits_le_False) simp

section \<open>Properties of the sort and of line reconstruction\<close>

lemma mset_insert_by: "mset (insert_by cmp a xs) = add_mset a (mset xs)"
  by (induction xs) auto

lemma mset_js_sort: "mset (js_sort cmp xs) = mset xs"
  unfolding js_sort_def by (induction xs) (auto simp: mset_insert_by)


lemma set_insert_by: "set (insert_by cmp a xs) = insert a (set xs)"
  by (induction xs) auto

lemma sorted_insert_by:
  assumes total: "\<And>a b. cmp a b \<le> 0 \<or> cmp b a \<le> 0"
    and trans: "\<And>a b c. cmp a b \<le> 0 \<Longrightarrow> cmp b c \<le> 0 \<Longrightarrow> cmp a c \<le> 0"
    and srt: "sorted_wrt (\<lambda>a b. cmp a b \<le> 0) xs"
  shows "sorted_wrt (\<lambda>a b. cmp a b \<le> 0) (insert_by cmp a xs)"
  using srt
proof (induction xs)
  case Nil
  then show ?case by simp
next
  case (Cons b bs)
  show ?case
  proof (cases "cmp a b \<le> 0")
    case True
    have "\<forall>y\<in>set bs. cmp a y \<le> 0"
      using Cons.prems True trans by auto
    with True Cons.prems show ?thesis by simp
  next
    case False
    then have "cmp b a \<le> 0" using total by blast
    with False Cons show ?thesis by (auto simp: set_insert_by)
  qed
qed

lemma sorted_js_sort:
  assumes "\<And>a b. cmp a b \<le> 0 \<or> cmp b a \<le> 0"
    and "\<And>a b c. cmp a b \<le> 0 \<Longrightarrow> cmp b c \<le> 0 \<Longrightarrow> cmp a c \<le> 0"
  shows "sorted_wrt (\<lambda>a b. cmp a b \<le> 0) (js_sort cmp xs)"
  unfolding js_sort_def
proof (induction xs)
  case Nil
  then show ?case by simp
next
  case (Cons a xs)
  have "sorted_wrt (\<lambda>a b. cmp a b \<le> 0) (insert_by cmp a (foldr (insert_by cmp) xs []))"
    using assms(1) assms(2) Cons.IH by (rule sorted_insert_by)
  then show ?case by simp
qed

lemma docCmp_inDocOrder: "(docCmp a b \<le> 0) = inDocOrder a b"
  by (auto simp: docCmp_def or_else_def inDocOrder_def)

lemma inDocOrder_total: "inDocOrder a b \<or> inDocOrder b a"
  by (auto simp: inDocOrder_def)

lemma inDocOrder_trans: "inDocOrder a b \<Longrightarrow> inDocOrder b c \<Longrightarrow> inDocOrder a c"
  by (auto simp: inDocOrder_def)

lemma detectQuestionsFromPages_sorted:
  "sorted_wrt inDocOrder (detectQuestionsFromPages pages conf)"
proof -
  have "sorted_wrt (\<lambda>a b. docCmp a b \<le> 0) (js_sort docCmp ts)" for ts
    by (rule sorted_js_sort) (auto simp: docCmp_inDocOrder inDocOrder_total intro: inDocOrder_trans)
  then show ?thesis
    by (simp add: detectQuestionsFromPages_def Let_def docCmp_inDocOrder)
qed








section \<open>Properties of the layout-aware detector\<close>

text \<open>
  C3: the copy of \<open>detectQuestionsFromPages\<close> that returns the tokens in the order of
  their first appearance, given page 2 before page 1, returns the token of page 2 first.
  (The copy with the final sort returns a sorted list for every input:
  \<open>detectQuestionsFromPages_sorted\<close>.)
\<close>

theorem detectQuestionsFromPages2_unsorted:
  "(case detectQuestionsFromPages2
           [pageOf 2 [glyph ''1.'' 0 50], pageOf 1 [glyph ''2.'' 0 50]] DEFAULT_CONFIG of
      Inl e \<Rightarrow> False
    | Inr ts \<Rightarrow> map (\<lambda>t. (tk_token t, tk_page t)) ts = [(''1'', 2), (''2'', 1)]
                \<and> \<not> sorted_wrt inDocOrder ts)"
  by code_simp

text \<open>
  C4: on a page whose only line reads \<open>2P)\<close>, the copy of \<open>detectQuestionsFromPages\<close>
  that assigns to \<open>excluded\<close> above its declaration ends with a ReferenceError.
\<close>

theorem detectQuestionsFromPages2_throws:
  "detectQuestionsFromPages2 [pageOf 1 [glyph ''2P)'' 0 50]] DEFAULT_CONFIG = Inl ReferenceError"
  by code_simp

text \<open>
  C6: a page whose only line reads \<open>20p\<close>, in the middle of the page, makes the
  layout-aware detector return the main token \<open>2\<close>.
\<close>

theorem detectQuestionsFromPages_20p:
  "map (\<lambda>t. (tk_token t, tk_kind t)) (detectQuestionsFromPages [pageOf 1 [glyph ''20p'' 0 50]] DEFAULT_CONFIG)
     = [(''2'', KMain)]"
  by code_simp

text \<open>
  C9: after the main heading \<open>1.\<close> and the section heading \<open>Sektion 2\<close>, the line
  \<open>2P)\<close> yields the sub token \<open>2p\<close> with the parent \<open>2\<close>, and the result has no
  main token \<open>2\<close>.
\<close>

theorem detectQuestionsFromPages_orphan_sub:
  "map (\<lambda>t. (tk_token t, tk_kind t, tk_parent t))
     (detectQuestionsFromPages
        [pageOf 1 [glyph ''1.'' 0 70, glyph ''Sektion 2'' 0 50, glyph ''2P)'' 0 30]] DEFAULT_CONFIG)
     = [(''1'', KMain, None), (''2p'', KSub, Some ''2'')]"
  by code_simp

section \<open>Properties of the line-based extractor\<close>


lemma emitTokens_length:
  assumes "\<forall>n \<in> set ns. length (subsOf st n) = 26"
    and "length tokens + 26 * length ns \<le> 156"
  shows "length (emitTokens st tokens ns) = length tokens + 26 * length ns"
  using assms
proof (induction ns arbitrary: tokens)
  case Nil
  show ?case by simp
next
  case (Cons n ns)
  from Cons.prems(1) have sub: "length (subsOf st n) = 26" by simp
  then have ne: "subsOf st n \<noteq> []" by auto
  let ?t1 = "tokens @ map (\<lambda>L. String n @ L) (subsOf st n)"
  have len: "length ?t1 = length tokens + 26" using sub by simp
  show ?case
  proof (cases "length ?t1 \<ge> 150")
    case True
    with len Cons.prems(2) have "ns = []" by (cases ns) auto
    with True ne len show ?thesis by (simp add: Let_def)
  next
    case False
    have "length (emitTokens st ?t1 ns) = length ?t1 + 26 * length ns"
      using Cons.prems len by (intro Cons.IH) auto
    with False ne len show ?thesis by (simp add: Let_def)
  qed
qed

lemma emitTokens_six_mains:
  assumes "length ns = 6" and "\<forall>n \<in> set ns. length (subsOf st n) = 26"
  shows "length (map (questionOf st) (emitTokens st [] ns)) = 156"
  using emitTokens_length [of ns st "[]"] assms by simp

text \<open>
  C7 fails: the emission loop tests the cap of 150 tokens only after it has pushed all
  parts of a main number, so a state with six main numbers of 26 parts each gives 156
  questions, as the lemma above shows for every such state. The document below reaches
  such a state: for each of the numbers 1 to 6 it holds the line "n." and then the 26
  lines "a)" to "z)", all on page 1, and the line-based extractor returns 156 questions
  for it.
\<close>

theorem extractQuestionsFromLines_156:
  "length (extractQuestionsFromLines
     (concat (map (\<lambda>n. textLine 1 (String n @ ''.'') # map (\<lambda>c. textLine 1 [c, CHR 0x29]) alphabet)
        [1, 2, 3, 4, 5, 6]))) = 156"
  by code_simp

section \<open>Properties of the header and footer filter\<close>

lemma keptFrom_top:
  assumes "topCommon t"
  shows "filter_mset (\<lambda>l. tl_text l = t) (mset (keptFrom i n topCommon botCommon arr))
         \<subseteq># mset (drop (3 - i) arr)"
proof (induction arr arbitrary: i)
  case Nil
  show ?case by simp
next
  case (Cons line rest)
  let ?K = "keptFrom (Suc i) n topCommon botCommon rest"
  have IH: "filter_mset (\<lambda>l. tl_text l = t) (mset ?K) \<subseteq># mset (drop (3 - Suc i) rest)"
    by (rule Cons.IH)
  have below: "mset (drop (3 - Suc i) rest) \<subseteq># mset (drop (3 - i) (line # rest))"
  proof (cases "i < 3")
    case True
    then have "3 - i = Suc (3 - Suc i)" by simp
    then show ?thesis by simp
  next
    case False
    then show ?thesis by simp
  qed
  have skip: "filter_mset (\<lambda>l. tl_text l = t) (mset ?K) \<subseteq># mset (drop (3 - i) (line # rest))"
    using IH below by (rule subset_mset.order_trans)
  show ?case
  proof (cases "(i < 3 \<and> topCommon (tl_text line)) \<or> (n \<le> i + 3 \<and> botCommon (tl_text line))")
    case True
    then have "keptFrom i n topCommon botCommon (line # rest) = ?K"
      by (simp add: Let_def)
    with skip show ?thesis by simp
  next
    case False
    then have kept: "keptFrom i n topCommon botCommon (line # rest) = line # ?K"
      by (simp add: Let_def)
    show ?thesis
    proof (cases "tl_text line = t")
      case True
      with False assms have "\<not> i < 3" by auto
      then have d: "drop (3 - i) (line # rest) = line # rest" and d': "drop (3 - Suc i) rest = rest"
        by simp_all
      have "add_mset line (filter_mset (\<lambda>l. tl_text l = t) (mset ?K)) \<subseteq># add_mset line (mset rest)"
        using IH unfolding d' by (simp only: mset_subset_eq_add_mset_cancel)
      then show ?thesis unfolding kept d using True by simp
    next
      case neq: False
      then have "filter_mset (\<lambda>l. tl_text l = t) (mset (line # ?K))
                 = filter_mset (\<lambda>l. tl_text l = t) (mset ?K)"
        by simp
      with skip show ?thesis unfolding kept by simp
    qed
  qed
qed

lemma keptFrom_pages:
  assumes "topCommon t"
  shows "filter_mset (\<lambda>l. tl_text l = t)
           (mset (concat (map (\<lambda>(p, arr). keptFrom 0 (length arr) topCommon botCommon arr) byPage)))
         \<subseteq># mset (concat (map (\<lambda>(p, arr). drop 3 arr) byPage))"
proof (induction byPage)
  case Nil
  show ?case by simp
next
  case (Cons pa rest)
  obtain p arr where pa: "pa = (p, arr)" by (cases pa)
  have "filter_mset (\<lambda>l. tl_text l = t) (mset (keptFrom 0 (length arr) topCommon botCommon arr))
        \<subseteq># mset (drop (3 - 0) arr)"
    using assms by (rule keptFrom_top)
  then have "filter_mset (\<lambda>l. tl_text l = t) (mset (keptFrom 0 (length arr) topCommon botCommon arr))
        \<subseteq># mset (drop 3 arr)" by simp
  from this Cons.IH show ?case unfolding pa by (simp add: subset_mset.add_mono)
qed

text \<open>
  C5 (amended): when a text occurs, among the first three lines of all pages together,
  at least as often as the threshold \<open>max 2 \<lfloor>0.6 * pages\<rfloor>\<close>, then every line with this
  text that the filter keeps stood below the third line of its page: the kept lines with
  this text are, as a multiset, among the lines that the pages hold from their fourth
  line on.
\<close>

theorem filterHeaderFooterLines_top:
  assumes "hfThreshold totalPages \<le> count_list (topTexts (groupByPage lines)) t"
  shows "filter_mset (\<lambda>l. tl_text l = t) (mset (filterHeaderFooterLines lines totalPages))
         \<subseteq># mset (concat (map (\<lambda>(p, arr). drop 3 arr) (groupByPage lines)))"
  unfolding filterHeaderFooterLines_def Let_def mset_js_sort
  using assms by (rule keptFrom_pages)

text \<open>
  Two pages that both begin with the line "1.": the threshold is 2, and no line "1."
  is kept.
\<close>

theorem filterHeaderFooterLines_top_witness:
  "hfThreshold 2 \<le> count_list (topTexts (groupByPage
       [textLine 1 ''1.'', textLine 1 ''Alpha'', textLine 2 ''1.'', textLine 2 ''Beta''])) ''1.''
   \<and> filter (\<lambda>l. tl_text l = ''1.'') (filterHeaderFooterLines
       [textLine 1 ''1.'', textLine 1 ''Alpha'', textLine 2 ''1.'', textLine 2 ''Beta''] 2) = []"
proof -
  let ?L = "[textLine 1 ''1.'', textLine 1 ''Alpha'', textLine 2 ''1.'', textLine 2 ''Beta'']"
  have h: "hfThreshold 2 \<le> count_list (topTexts (groupByPage ?L)) ''1.''" by code_simp
  have d: "concat (map (\<lambda>(p, arr). drop 3 arr) (groupByPage ?L)) = []" by code_simp
  from filterHeaderFooterLines_top [OF h] d
  have "mset (filter (\<lambda>l. tl_text l = ''1.'') (filterHeaderFooterLines ?L 2)) = {#}" by simp
  then have "filter (\<lambda>l. tl_text l = ''1.'') (filterHeaderFooterLines ?L 2) = []"
    by (simp only: mset_zero_iff)
  with h show ?thesis by simp
qed

section \<open>Properties of parsePdf\<close>











text \<open>
  C5 as claimed fails: in a document of two pages that both begin with the line "1.",
  this line is among the first three lines of every page, and the filter removes it from
  the lines of the line-based stage. That stage then finds nothing, the flat-text
  extractor reads the unfiltered text of the pages, and the result holds the main
  question 1.
\<close>

theorem parsePdf_header_yields_heading:
  "map (\<lambda>l. (tl_page l, tl_text l))
       (concat (map (\<lambda>i. buildLinesFromItems_parsePdf
                        [glyph ''1.'' 50 90, glyph (if i = 1 then ''Alpha'' else ''Beta'') 50 80] i) [1, 2]))
     = [(1, ''1.''), (1, ''Alpha''), (2, ''1.''), (2, ''Beta'')]
   \<and> map q_number (ex_questions (parsePdf detector1
         (samplePdf ''exam.pdf'' 2
            (\<lambda>i. [glyph ''1.'' 50 90, glyph (if i = 1 then ''Alpha'' else ''Beta'') 50 80])
            (\<lambda>i. OcrNoContext)))) = [''1'']"
  by code_simp

text \<open>
  C1 fails on both counts. For a page with the line "Tentamen i Algebra" the detector
  returns the name "Algebra", and \<open>parsePdf\<close> itself records that a name was found, yet
  the field \<open>courseName\<close> of the result is the constant "Okant kursnamn", written with
  U+00E4 as its third character. For a page with the line "1." the detector returns no name, and the
  field is the same constant, not absent.
\<close>

theorem parsePdf_courseName_constant:
  "detectCourseName ''Tentamen i Algebra'' ''exam.pdf'' None = Some ''Algebra''
   \<and> ex_courseName (parsePdf detector1
        (samplePdf ''exam.pdf'' 1 (\<lambda>i. [glyph ''Tentamen i Algebra'' 50 90]) (\<lambda>i. OcrNoContext)))
       = Some (''Ok'' @ [CHR 0xE4] @ ''nt kursnamn'')
   \<and> ex_courseNameFromText (parsePdf detector1
        (samplePdf ''exam.pdf'' 1 (\<lambda>i. [glyph ''Tentamen i Algebra'' 50 90]) (\<lambda>i. OcrNoContext)))
       = Some True
   \<and> ex_extractedText (parsePdf detector1
        (samplePdf ''exam.pdf'' 1 (\<lambda>i. [glyph ''Tentamen i Algebra'' 50 90]) (\<lambda>i. OcrNoContext)))
       = ''Tentamen i Algebra''
   \<and> detectCourseName ''1.'' ''exam.pdf'' None = None
   \<and> ex_courseName (parsePdf detector1
        (samplePdf ''exam.pdf'' 1 (\<lambda>i. [glyph ''1.'' 50 90]) (\<lambda>i. OcrNoContext)))
       = Some (''Ok'' @ [CHR 0xE4] @ ''nt kursnamn'')"
  by code_simp

end
